theory Spec2Isabelle
  imports Main "HOL-Library.Word"
begin

section \<open>JavaScript values as the server sees them\<close>

text \<open>
  A JavaScript string is a sequence of UTF-16 code units: \<open>length\<close> counts them and
  \<open>trim\<close> inspects them one by one.  The literals of the program are ASCII and are
  written \<open>js ''...''\<close>.
\<close>

type_synonym jsstring = "16 word list"

definition js :: "string \<Rightarrow> jsstring" where
  "js s = map of_char s"

text \<open>
  What \<open>JSON.parse\<close> (and the JSON body parser of the HTTP framework) can return.  A
  number is kept as the text that \<open>Number.prototype.toString\<close> gives it: the program
  never computes with a received number, it only tests it for truthiness and converts it
  to a string.  An object is the list of its own properties, each key once.  A property
  that is not there reads as \<open>undefined\<close>, which is \<open>None\<close> of \<open>jsval option\<close>.
\<close>

datatype jsval =
    JNull
  | JBool bool
  | JNum jsstring
  | JStr jsstring
  | JArr "jsval list"
  | JObj "(jsstring \<times> jsval) list"

text \<open>ToBoolean: \<open>undefined\<close>, \<open>null\<close>, \<open>false\<close>, zero, \<open>NaN\<close> and the empty string are falsy.\<close>

fun truthy :: "jsval option \<Rightarrow> bool" where
  "truthy None = False"
| "truthy (Some JNull) = False"
| "truthy (Some (JBool b)) = b"
| "truthy (Some (JNum r)) = (r \<noteq> js ''0'' \<and> r \<noteq> js ''NaN'')"
| "truthy (Some (JStr s)) = (s \<noteq> [])"
| "truthy (Some (JArr xs)) = True"
| "truthy (Some (JObj kvs)) = True"

text \<open>
  \<open>v.k\<close> for a value \<open>v\<close> that is not \<open>null\<close> and one of the property names the program
  reads (\<open>event\<close>, \<open>text\<close>, \<open>title\<close>, \<open>iconUrl\<close>, \<open>url\<close>, \<open>message\<close>, \<open>id\<close>): none of them is
  a property of a string, a number, a boolean or an array.  Reading a property of \<open>null\<close>
  throws, which every caller below handles before it calls \<open>get\<close>.
\<close>

fun get :: "jsval \<Rightarrow> jsstring \<Rightarrow> jsval option" where
  "get (JObj kvs) k = map_of kvs k"
| "get v k = None"

text \<open>\<open>a || 'literal'\<close>\<close>

fun or_else :: "jsval option \<Rightarrow> jsstring \<Rightarrow> jsval" where
  "or_else None d = JStr d"
| "or_else (Some v) d = (if truthy (Some v) then v else JStr d)"

text \<open>\<open>xs.join(sep)\<close> on a list of strings.\<close>

fun join :: "jsstring \<Rightarrow> jsstring list \<Rightarrow> jsstring" where
  "join sep [] = []"
| "join sep [s] = s"
| "join sep (s # t # r) = s @ sep @ join sep (t # r)"

text \<open>
  ToString, as string concatenation, a template literal and \<open>new Error(v)\<close> apply it.
  An array is joined with commas, \<open>null\<close> elements giving the empty string.  A plain
  object gives \<open>[object Object]\<close> through the inherited \<open>toString\<close>; when the parsed
  object has an own property \<open>toString\<close> (never callable, since it came from JSON) the
  conversion throws a TypeError, which is \<open>None\<close> here.
\<close>

fun to_string :: "jsval \<Rightarrow> jsstring option" where
  "to_string JNull = Some (js ''null'')"
| "to_string (JBool b) = Some (if b then js ''true'' else js ''false'')"
| "to_string (JNum r) = Some r"
| "to_string (JStr s) = Some s"
| "to_string (JArr xs) =
     map_option (join (js '',''))
       (those (map (\<lambda>v. case v of JNull \<Rightarrow> Some [] | _ \<Rightarrow> to_string v) xs))"
| "to_string (JObj kvs) =
     (if js ''toString'' \<in> fst ` set kvs then None else Some (js ''[object Object]''))"

text \<open>
  The code units that \<open>String.prototype.trim\<close> strips: WhiteSpace and LineTerminator
  of ECMAScript (tab, line feed, vertical tab, form feed, carriage return, space,
  no-break space, the Unicode space separators, line and paragraph separator, and the
  byte order mark).
\<close>

definition is_white_space :: "16 word \<Rightarrow> bool" where
  "is_white_space c \<longleftrightarrow>
     c = 0x9 \<or> c = 0xA \<or> c = 0xB \<or> c = 0xC \<or> c = 0xD \<or> c = 0x20 \<or> c = 0xA0 \<or>
     c = 0x1680 \<or> (0x2000 \<le> c \<and> c \<le> 0x200A) \<or> c = 0x2028 \<or> c = 0x2029 \<or>
     c = 0x202F \<or> c = 0x205F \<or> c = 0x3000 \<or> c = 0xFEFF"

definition trim :: "jsstring \<Rightarrow> jsstring" where
  "trim s = rev (dropWhile is_white_space (rev (dropWhile is_white_space s)))"


section \<open>The class \<open>Copilot\<close>\<close>

text \<open>
  The only field a call changes is \<open>conversationId\<close>; \<open>models\<close> and \<open>headers\<close> are
  constants.  The constructor sets \<open>conversationId\<close> to \<open>null\<close>.
\<close>

record copilot =
  conversationId :: "jsval option"

definition new_Copilot :: copilot where
  "new_Copilot = \<lparr>conversationId = Some JNull\<rparr>"

definition models :: "(jsstring \<times> jsstring) list" where
  "models =
     [(js ''default'', js ''chat''),
      (js ''think-deeper'', js ''reasoning''),
      (js ''gpt-5'', js ''smart'')]"

text \<open>
  \<open>this.models[model]\<close> reads an object literal, so besides the three own keys it finds
  the properties inherited from \<open>Object.prototype\<close>, all of them truthy.
\<close>

definition object_prototype_keys :: "jsstring list" where
  "object_prototype_keys =
     [js ''constructor'', js ''__defineGetter__'', js ''__defineSetter__'',
      js ''hasOwnProperty'', js ''__lookupGetter__'', js ''__lookupSetter__'',
      js ''isPrototypeOf'', js ''propertyIsEnumerable'', js ''toString'',
      js ''valueOf'', js ''__proto__'', js ''toLocaleString'']"

datatype model_entry = Mode jsstring | Inherited jsstring | Missing

definition models_get :: "jsstring \<Rightarrow> model_entry" where
  "models_get model =
     (case map_of models model of
        Some mode \<Rightarrow> Mode mode
      | None \<Rightarrow> if model \<in> set object_prototype_keys then Inherited model else Missing)"

text \<open>What the program does to the outside world, in the order it does it.\<close>

datatype ws_out =
    SetOptions
  | Send model_entry "jsval option" jsstring

datatype backend_call =
    HttpPost
  | WsConnect
  | WsSend ws_out
  | WsClose

text \<open>
  \<open>axios.post\<close> either throws (no answer, or a status outside 2xx) or returns the
  response, of which only \<open>data\<close> is read.
\<close>

datatype post_result = AxiosError jsstring | AxiosResponse jsval

definition create_failed :: jsstring where
  "create_failed = js ''Failed to create a new conversation with the AI service.''"

definition createConversation ::
  "post_result \<Rightarrow> copilot \<Rightarrow> (jsstring + jsval option) \<times> copilot" where
  "createConversation reply this =
     (case reply of
        AxiosError e \<Rightarrow> (Inl create_failed, this)
      | AxiosResponse JNull \<Rightarrow> (Inl create_failed, this)
      | AxiosResponse data \<Rightarrow>
          (Inr (get data (js ''id'')), this\<lparr>conversationId := get data (js ''id'')\<rparr>))"

subsection \<open>One exchange on the WebSocket\<close>

record citation =
  title :: "jsval option"
  icon :: "jsval option"
  url :: "jsval option"

record chat_result =
  "text" :: jsstring
  citations :: "citation list"

datatype 'a promise = Pending | Resolved 'a | Rejected jsstring

text \<open>
  A received chunk is what \<open>JSON.parse(chunk.toString())\<close> makes of it: a SyntaxError
  or a value.
\<close>

datatype frame = Malformed | Json jsval

datatype ws_event =
    OnOpen
  | OnMessage frame
  | OnError jsstring
  | OnClose nat

text \<open>
  The state the callbacks of one \<open>new Promise\<close> share: the object \<open>response\<close>, the state
  of the promise, and the calls made so far.  A promise is settled by the first
  \<open>resolve\<close> or \<open>reject\<close>; later ones do nothing.  \<open>resolve(response)\<close> passes the object
  itself, not a copy of it: the value of the resolved promise is a reference to
  \<open>response\<close>, and the \<open>message\<close> callback, which stays registered, goes on changing that
  object.  \<open>Response_ref\<close> is the address of the one object of an exchange.
\<close>

datatype ref = Response_ref

record exchange =
  response :: chat_result
  settled :: "ref promise"
  calls :: "backend_call list"

definition resolve :: "ref \<Rightarrow> exchange \<Rightarrow> exchange" where
  "resolve r x = (if settled x = Pending then x\<lparr>settled := Resolved r\<rparr> else x)"

definition reject :: "jsstring \<Rightarrow> exchange \<Rightarrow> exchange" where
  "reject e x = (if settled x = Pending then x\<lparr>settled := Rejected e\<rparr> else x)"

definition ws_close :: "exchange \<Rightarrow> exchange" where
  "ws_close x = x\<lparr>calls := calls x @ [WsClose]\<rparr>"

definition process_failed :: jsstring where
  "process_failed = js ''Failed to process message from AI service.''"

definition unknown_error :: jsstring where
  "unknown_error = js ''An unknown error occurred during the AI chat.''"

text \<open>
  The \<open>message\<close> callback.  Everything that throws inside its \<open>try\<close> (the parse, reading
  \<open>event\<close> of \<open>null\<close>, a conversion to string) ends in the \<open>catch\<close>, which rejects and
  does not close the socket.  The \<open>switch\<close> compares with \<open>===\<close>, so only a string tag
  matches a case.
\<close>

definition on_message :: "frame \<Rightarrow> exchange \<Rightarrow> exchange" where
  "on_message chunk x =
     (case chunk of
        Malformed \<Rightarrow> reject process_failed x
      | Json JNull \<Rightarrow> reject process_failed x
      | Json parsed \<Rightarrow>
          (case get parsed (js ''event'') of
             Some (JStr ev) \<Rightarrow>
               if ev = js ''appendText'' then
                 (case to_string (or_else (get parsed (js ''text'')) []) of
                    None \<Rightarrow> reject process_failed x
                  | Some s \<Rightarrow> x\<lparr>response := (response x)\<lparr>text := text (response x) @ s\<rparr>\<rparr>)
               else if ev = js ''citation'' then
                 x\<lparr>response := (response x)\<lparr>citations := citations (response x) @
                     [\<lparr>title = get parsed (js ''title''),
                       icon = get parsed (js ''iconUrl''),
                       url = get parsed (js ''url'')\<rparr>]\<rparr>\<rparr>
               else if ev = js ''done'' then
                 ws_close (resolve Response_ref x)
               else if ev = js ''error'' then
                 (case to_string (or_else (get parsed (js ''message'')) unknown_error) of
                    None \<Rightarrow> reject process_failed x
                  | Some m \<Rightarrow> ws_close (reject m x))
               else x
           | _ \<Rightarrow> x))"

text \<open>
  The four callbacks.  \<open>open\<close> sends the options frame and then the message frame;
  \<open>close\<close> (registered in \<open>src/index.js\<close> only) has an empty body.
\<close>

definition on_event ::
  "model_entry \<Rightarrow> jsval option \<Rightarrow> jsstring \<Rightarrow> exchange \<Rightarrow> ws_event \<Rightarrow> exchange" where
  "on_event mode cid message x ev =
     (case ev of
        OnOpen \<Rightarrow> x\<lparr>calls := calls x @ [WsSend SetOptions, WsSend (Send mode cid message)]\<rparr>
      | OnMessage chunk \<Rightarrow> on_message chunk x
      | OnError m \<Rightarrow> reject (js ''WebSocket error: '' @ m) x
      | OnClose code \<Rightarrow> x)"

definition new_exchange :: "backend_call list \<Rightarrow> exchange" where
  "new_exchange done_before =
     \<lparr>response = \<lparr>text = [], citations = []\<rparr>,
      settled = Pending,
      calls = done_before @ [WsConnect]\<rparr>"

definition run :: "model_entry \<Rightarrow> jsval option \<Rightarrow> jsstring \<Rightarrow> exchange \<Rightarrow> ws_event list \<Rightarrow> exchange" where
  "run mode cid message x events = foldl (on_event mode cid message) x events"

definition available_models :: jsstring where
  "available_models = js ''Available models: '' @ join (js '', '') (map fst models)"

text \<open>
  What the caller who awaits the promise gets, when it looks after the events handled so
  far: nothing yet, the error, or the object \<open>response\<close> as it is at that moment.
\<close>

definition deref :: "exchange \<Rightarrow> ref \<Rightarrow> chat_result" where
  "deref x r = (case r of Response_ref \<Rightarrow> response x)"

definition await :: "exchange \<Rightarrow> chat_result promise" where
  "await x =
     (case settled x of
        Pending \<Rightarrow> Pending
      | Resolved r \<Rightarrow> Resolved (deref x r)
      | Rejected e \<Rightarrow> Rejected e)"

text \<open>
  \<open>chat(message, {model})\<close>.  The environment gives the answer to the conversation
  request, should one be made, and the events the socket emits, should one be opened, up
  to the moment the caller reads the result.  The result is what the caller gets from the
  promise that \<open>chat\<close> returns once all these events are handled (\<open>Pending\<close>: no terminal
  event came, the caller waits on), the adapter, and the calls made.  \<open>connect\<close> is the body of \<open>chat\<close> after its first line: the test of the
  model, then the promise with its socket and callbacks.  One call is followed from its
  start to the last event; calls that overlap in time are not modelled.
\<close>

definition connect ::
  "ws_event list \<Rightarrow> jsstring \<Rightarrow> jsstring \<Rightarrow> copilot \<Rightarrow> backend_call list \<Rightarrow>
   chat_result promise \<times> copilot \<times> backend_call list" where
  "connect events message model this done_before =
     (case models_get model of
        Missing \<Rightarrow> (Rejected available_models, this, done_before)
      | entry \<Rightarrow>
          (let x = run entry (conversationId this) message (new_exchange done_before) events
           in (await x, this, calls x)))"

definition chat ::
  "post_result \<Rightarrow> ws_event list \<Rightarrow> jsstring \<Rightarrow> jsstring \<Rightarrow> copilot \<Rightarrow>
   chat_result promise \<times> copilot \<times> backend_call list" where
  "chat reply events message model this =
     (if \<not> truthy (conversationId this) then
        (case createConversation reply this of
           (Inl e, this') \<Rightarrow> (Rejected e, this', [HttpPost])
         | (Inr cid, this') \<Rightarrow> connect events message model this' [HttpPost])
      else connect events message model this [])"


section \<open>The handler of \<open>POST /api/ai\<close>\<close>

text \<open>
  The JSON object that \<open>res.status(...).json(...)\<close> sends, field by field; a field the
  object does not have is \<open>None\<close>.  Of \<open>metadata\<close> the two fields read from the clock
  (\<open>executionTime\<close>, \<open>timestamp\<close>) are left out.
\<close>

record metadata =
  queryLength :: nat
  finalPromptLength :: "nat option"
  responseLength :: nat
  citationCount :: nat
  modelUsed :: jsstring
  customCharacter :: "jsval option"
  outputLanguage :: "jsval option"

record http_response =
  res_status :: nat
  res_success :: bool
  res_error :: "jsstring option"
  res_message :: "jsstring option"
  res_response :: "jsstring option"
  res_citations :: "citation list option"
  res_metadata :: "metadata option"

definition bad_request :: http_response where
  "bad_request =
     \<lparr>res_status = 400, res_success = False,
      res_error = Some (js ''Bad Request: 'query' field is missing or empty.''),
      res_message = None, res_response = None, res_citations = None,
      res_metadata = None\<rparr>"

definition server_error :: "jsstring \<Rightarrow> http_response" where
  "server_error m =
     \<lparr>res_status = 500, res_success = False,
      res_error = Some (js ''Internal Server Error''),
      res_message = Some m, res_response = None, res_citations = None,
      res_metadata = None\<rparr>"

text \<open>\<open>!query || typeof query !== 'string' || query.trim() === ''\<close>\<close>

definition invalid_query :: "jsval option \<Rightarrow> bool" where
  "invalid_query query \<longleftrightarrow>
     \<not> truthy query \<or> (case query of Some (JStr q) \<Rightarrow> trim q = [] | _ \<Rightarrow> True)"

text \<open>
  The two TypeErrors the prompt construction can raise, with the messages of V8:
  calling \<open>trim\<close> on a truthy \<open>customModel\<close> that is not a string, and converting a
  \<open>language\<close> that has an own \<open>toString\<close> property.
\<close>

definition trim_not_a_function :: jsstring where
  "trim_not_a_function = js ''customModel.trim is not a function''"

definition cannot_convert :: jsstring where
  "cannot_convert = js ''Cannot convert object to primitive value''"

definition persona_instruction :: "jsval option \<Rightarrow> jsstring + jsstring list" where
  "persona_instruction customModel =
     (if \<not> truthy customModel then Inr []
      else case customModel of
        Some (JStr p) \<Rightarrow>
          if trim p \<noteq> [] then
            Inr [js ''Anda adalah AI yang harus berperan sebagai: '' @ [0x22] @ p @ [0x22] @
                 js ''. Pertahankan karakter ini dalam jawaban Anda.'']
          else Inr []
      | _ \<Rightarrow> Inl trim_not_a_function)"

definition language_instruction :: "jsstring \<Rightarrow> jsstring" where
  "language_instruction lang =
     js ''Anda harus menjawab secara eksklusif dalam Bahasa '' @ lang @ js ''.''"

definition finalPrompt :: "jsval option \<Rightarrow> jsval option \<Rightarrow> jsstring \<Rightarrow> jsstring + jsstring" where
  "finalPrompt customModel language query =
     (case persona_instruction customModel of
        Inl e \<Rightarrow> Inl e
      | Inr instructions \<Rightarrow>
          (case to_string (or_else language (js ''Indonesia'')) of
             None \<Rightarrow> Inl cannot_convert
           | Some lang \<Rightarrow>
               Inr (join (js '' '') (instructions @ [language_instruction lang]) @
                    js ''\<newline>\<newline>---\<newline>\<newline>PERTANYAAN:\<newline>'' @ query)))"

text \<open>
  What the handler does with the promise of \<open>chat\<close>: \<open>None\<close> is a request that gets no
  answer, because the promise stays pending.
\<close>

definition respond ::
  "jsstring \<Rightarrow> nat option \<Rightarrow> jsval option \<Rightarrow> jsval option \<Rightarrow> chat_result promise \<Rightarrow>
   http_response option" where
  "respond query promptLength character language outcome =
     (case outcome of
        Pending \<Rightarrow> None
      | Rejected m \<Rightarrow> Some (server_error m)
      | Resolved aiResponse \<Rightarrow>
          Some \<lparr>res_status = 200, res_success = True, res_error = None, res_message = None,
                res_response = Some (trim (text aiResponse)),
                res_citations = Some (citations aiResponse),
                res_metadata = Some
                  \<lparr>queryLength = length query,
                   finalPromptLength = promptLength,
                   responseLength = length (trim (text aiResponse)),
                   citationCount = length (citations aiResponse),
                   modelUsed = js ''default'',
                   customCharacter = character,
                   outputLanguage = language\<rparr>\<rparr>)"

text \<open>
  The handler of the file that keeps one adapter for all requests and builds the prompt
  (\<open>customModel\<close>, \<open>language\<close>).  The body is the parsed JSON object of the request.
\<close>

definition post_api_ai ::
  "post_result \<Rightarrow> ws_event list \<Rightarrow> (jsstring \<times> jsval) list \<Rightarrow> copilot \<Rightarrow>
   http_response option \<times> copilot \<times> backend_call list" where
  "post_api_ai reply events body copilot =
     (let query = map_of body (js ''query'');
          customModel = map_of body (js ''customModel'');
          language = map_of body (js ''language'')
      in if invalid_query query then (Some bad_request, copilot, [])
         else case query of
           Some (JStr q) \<Rightarrow>
             (case finalPrompt customModel language q of
                Inl e \<Rightarrow> (Some (server_error e), copilot, [])
              | Inr prompt \<Rightarrow>
                  (case chat reply events prompt (js ''default'') copilot of
                     (outcome, copilot', done) \<Rightarrow>
                       (respond q (Some (length prompt))
                          (Some (or_else customModel (js ''Tidak diatur'')))
                          (Some (or_else language (js ''Indonesia''))) outcome,
                        copilot', done)))
         | _ \<Rightarrow> (Some bad_request, copilot, []))"

text \<open>
  The handler of \<open>src/index.js\<close>: a new adapter for each request, the query sent as it
  is.  The adapter is dropped when the handler ends.
\<close>

definition post_api_ai_index ::
  "post_result \<Rightarrow> ws_event list \<Rightarrow> (jsstring \<times> jsval) list \<Rightarrow>
   http_response option \<times> backend_call list" where
  "post_api_ai_index reply events body =
     (let query = map_of body (js ''query'')
      in if invalid_query query then (Some bad_request, [])
         else case query of
           Some (JStr q) \<Rightarrow>
             (case chat reply events q (js ''default'') new_Copilot of
                (outcome, copilot', done) \<Rightarrow> (respond q None None None outcome, done))
         | _ \<Rightarrow> (Some bad_request, []))"


section \<open>Vocabulary of the properties\<close>

text \<open>
  The tag the \<open>switch\<close> of the \<open>message\<close> callback sees, when the frame is an object
  whose \<open>event\<close> is a string, and a field of the frame.
\<close>

definition event_tag :: "frame \<Rightarrow> jsstring option" where
  "event_tag f =
     (case f of
        Json (JObj kvs) \<Rightarrow> (case map_of kvs (js ''event'') of Some (JStr ev) \<Rightarrow> Some ev | _ \<Rightarrow> None)
      | _ \<Rightarrow> None)"

definition field :: "frame \<Rightarrow> jsstring \<Rightarrow> jsval option" where
  "field f k = (case f of Json v \<Rightarrow> get v k | Malformed \<Rightarrow> None)"

definition is_appendText :: "frame \<Rightarrow> bool" where
  "is_appendText f \<longleftrightarrow> event_tag f = Some (js ''appendText'')"

definition is_citation :: "frame \<Rightarrow> bool" where
  "is_citation f \<longleftrightarrow> event_tag f = Some (js ''citation'')"

definition is_done :: "frame \<Rightarrow> bool" where
  "is_done f \<longleftrightarrow> event_tag f = Some (js ''done'')"

definition is_error :: "frame \<Rightarrow> bool" where
  "is_error f \<longleftrightarrow> event_tag f = Some (js ''error'')"

text \<open>
  A frame the callback cannot process: the parse fails, the frame is \<open>null\<close>, or the text
  or message it carries cannot be converted to a string.
\<close>

definition unprocessable :: "frame \<Rightarrow> bool" where
  "unprocessable f \<longleftrightarrow>
     f = Malformed \<or> f = Json JNull \<or>
     (is_appendText f \<and> to_string (or_else (field f (js ''text'')) []) = None) \<or>
     (is_error f \<and> to_string (or_else (field f (js ''message'')) unknown_error) = None)"

text \<open>The events that end an exchange, and the others.\<close>

fun terminal :: "ws_event \<Rightarrow> bool" where
  "terminal (OnMessage f) = (is_done f \<or> is_error f \<or> unprocessable f)"
| "terminal (OnError m) = True"
| "terminal OnOpen = False"
| "terminal (OnClose code) = False"

text \<open>
  The text fragment of an \<open>appendText\<close> frame and the record of a \<open>citation\<close> frame;
  the fragments and the records of a sequence of events, in the order of arrival.
\<close>

definition fragment :: "frame \<Rightarrow> jsstring" where
  "fragment f = (case to_string (or_else (field f (js ''text'')) []) of Some s \<Rightarrow> s | None \<Rightarrow> [])"

definition citation_record :: "frame \<Rightarrow> citation" where
  "citation_record f =
     \<lparr>title = field f (js ''title''), icon = field f (js ''iconUrl''), url = field f (js ''url'')\<rparr>"

fun fragments :: "ws_event list \<Rightarrow> jsstring list" where
  "fragments [] = []"
| "fragments (OnMessage f # evs) = (if is_appendText f then fragment f # fragments evs else fragments evs)"
| "fragments (ev # evs) = fragments evs"

fun citation_records :: "ws_event list \<Rightarrow> citation list" where
  "citation_records [] = []"
| "citation_records (OnMessage f # evs) =
     (if is_citation f then citation_record f # citation_records evs else citation_records evs)"
| "citation_records (ev # evs) = citation_records evs"

text \<open>
  The message with which an \<open>error\<close> frame rejects: its message converted to a string,
  the fixed text when it has none, and the text of the \<open>catch\<close> when the conversion throws.
\<close>

definition error_message :: "frame \<Rightarrow> jsstring" where
  "error_message f =
     (case to_string (or_else (field f (js ''message'')) unknown_error) of
        Some m \<Rightarrow> m
      | None \<Rightarrow> process_failed)"


text \<open>The conversation request is not needed or it succeeds.\<close>

definition has_conversation :: "post_result \<Rightarrow> copilot \<Rightarrow> bool" where
  "has_conversation reply this \<longleftrightarrow>
     truthy (conversationId this) \<or>
     (case reply of AxiosResponse data \<Rightarrow> data \<noteq> JNull | AxiosError e \<Rightarrow> False)"


text \<open>The frames of the scenarios, as the backend sends them.\<close>

definition appendText_frame :: "jsstring \<Rightarrow> frame" where
  "appendText_frame s = Json (JObj [(js ''event'', JStr (js ''appendText'')), (js ''text'', JStr s)])"

definition done_frame :: frame where
  "done_frame = Json (JObj [(js ''event'', JStr (js ''done''))])"

definition error_frame :: "jsstring \<Rightarrow> frame" where
  "error_frame m = Json (JObj [(js ''event'', JStr (js ''error'')), (js ''message'', JStr m)])"


section \<open>Basic facts\<close>


lemma of_char_nat_less: "(of_char c :: nat) < 256"
proof -
  have "(of_char c :: nat) mod 256 < 256" by (rule mod_less_divisor) simp
  then show ?thesis by (simp only: of_char_mod_256)
qed

lemma of_char_word_eq_iff [simp]: "(of_char c :: 16 word) = of_char d \<longleftrightarrow> c = d"
proof
  assume h: "(of_char c :: 16 word) = of_char d"
  have "(word_of_nat (of_char c) :: 16 word) = word_of_nat (of_char d)"
    using h by (simp only: of_nat_of_char)
  then have "take_bit 16 (of_char c :: nat) = take_bit 16 (of_char d :: nat)"
    by (simp only: word_of_nat_eq_iff len_bit0 len_num1) simp
  moreover have "(of_char c :: nat) < 2 ^ 16"
    by (rule less_trans[OF of_char_nat_less]) simp
  moreover have "(of_char d :: nat) < 2 ^ 16"
    by (rule less_trans[OF of_char_nat_less]) simp
  ultimately have "(of_char c :: nat) = of_char d"
    by (simp only: take_bit_nat_eq_self)
  then show "c = d" by (simp only: of_char_eq_iff)
qed simp


lemma js_eq_iff [simp]: "js a = js b \<longleftrightarrow> a = b"
proof -
  have "inj (of_char :: char \<Rightarrow> 16 word)"
    by (rule injI) (simp only: of_char_word_eq_iff)
  then show ?thesis
    unfolding js_def by (rule inj_map_eq_map)
qed

lemma js_Nil [simp]: "js [] = []"
  by (simp add: js_def)

lemma js_eq_Nil [simp]: "js a = [] \<longleftrightarrow> a = []"
  unfolding js_def by (rule map_is_Nil_conv)

lemma js_append: "js (a @ b) = js a @ js b"
  unfolding js_def by (rule map_append)


lemmas frame_defs = event_tag_def field_def is_appendText_def is_citation_def is_done_def
  is_error_def unprocessable_def

lemma on_message_unprocessable:
  "unprocessable f \<Longrightarrow> on_message f x = reject process_failed x"
  by (auto simp: on_message_def frame_defs split: frame.splits jsval.splits option.splits)

lemma on_message_appendText:
  "is_appendText f \<Longrightarrow> \<not> unprocessable f \<Longrightarrow>
   on_message f x = x\<lparr>response := (response x)\<lparr>text := text (response x) @ fragment f\<rparr>\<rparr>"
  by (auto simp: on_message_def frame_defs fragment_def split: frame.splits jsval.splits option.splits)

lemma on_message_citation:
  "is_citation f \<Longrightarrow>
   on_message f x =
     x\<lparr>response := (response x)\<lparr>citations := citations (response x) @ [citation_record f]\<rparr>\<rparr>"
  by (auto simp: on_message_def frame_defs citation_record_def split: frame.splits jsval.splits option.splits)

lemma on_message_done:
  "is_done f \<Longrightarrow> on_message f x = ws_close (resolve Response_ref x)"
  by (auto simp: on_message_def frame_defs split: frame.splits jsval.splits option.splits)

lemma on_message_error:
  "is_error f \<Longrightarrow> \<not> unprocessable f \<Longrightarrow> on_message f x = ws_close (reject (error_message f) x)"
  by (auto simp: on_message_def frame_defs error_message_def split: frame.splits jsval.splits option.splits)

lemma on_message_other:
  "\<not> is_appendText f \<Longrightarrow> \<not> is_citation f \<Longrightarrow> \<not> is_done f \<Longrightarrow> \<not> is_error f \<Longrightarrow>
   \<not> unprocessable f \<Longrightarrow> on_message f x = x"
  by (auto simp: on_message_def frame_defs split: frame.splits jsval.splits option.splits)


lemma settled_reject:
  "settled (reject e x) = (if settled x = Pending then Rejected e else settled x)"
  by (simp add: reject_def)

lemma settled_resolve:
  "settled (resolve v x) = (if settled x = Pending then Resolved v else settled x)"
  by (simp add: resolve_def)

lemma settled_ws_close [simp]: "settled (ws_close x) = settled x"
  by (simp add: ws_close_def)

lemma response_reject [simp]: "response (reject e x) = response x"
  by (simp add: reject_def)

lemma response_resolve [simp]: "response (resolve v x) = response x"
  by (simp add: resolve_def)

lemma response_ws_close [simp]: "response (ws_close x) = response x"
  by (simp add: ws_close_def)

lemma on_message_settled:
  "settled x \<noteq> Pending \<Longrightarrow> settled (on_message f x) = settled x"
proof -
  assume s: "settled x \<noteq> Pending"
  consider "unprocessable f" | "is_done f" | "is_error f" "\<not> unprocessable f"
    | "is_appendText f" "\<not> unprocessable f" | "is_citation f"
    | "\<not> is_appendText f" "\<not> is_citation f" "\<not> is_done f" "\<not> is_error f" "\<not> unprocessable f"
    by blast
  then show ?thesis
  proof cases
    case 1 then show ?thesis using s by (simp add: on_message_unprocessable settled_reject)
  next
    case 2 then show ?thesis using s by (simp add: on_message_done settled_resolve)
  next
    case 3 then show ?thesis using s by (simp add: on_message_error settled_reject)
  next
    case 4 then show ?thesis by (simp add: on_message_appendText)
  next
    case 5 then show ?thesis by (simp add: on_message_citation)
  next
    case 6 then show ?thesis by (simp add: on_message_other)
  qed
qed

lemma on_event_settled:
  "settled x \<noteq> Pending \<Longrightarrow> settled (on_event m c msg x ev) = settled x"
  by (cases ev) (simp_all add: on_event_def on_message_settled settled_reject)

lemma run_Nil [simp]: "run m c msg x [] = x"
  by (simp add: run_def)

lemma run_Cons [simp]: "run m c msg x (ev # evs) = run m c msg (on_event m c msg x ev) evs"
  by (simp add: run_def)

lemma run_append: "run m c msg x (xs @ ys) = run m c msg (run m c msg x xs) ys"
  by (simp add: run_def)

lemma run_settled:
  "settled x \<noteq> Pending \<Longrightarrow> settled (run m c msg x evs) = settled x"
  by (induction evs arbitrary: x) (simp_all add: on_event_settled)

lemma tags_exclusive:
  "is_appendText f \<Longrightarrow> \<not> is_citation f \<and> \<not> is_done f \<and> \<not> is_error f"
  "is_citation f \<Longrightarrow> \<not> is_appendText f \<and> \<not> is_done f \<and> \<not> is_error f \<and> \<not> unprocessable f"
  "is_done f \<Longrightarrow> \<not> is_appendText f \<and> \<not> is_citation f \<and> \<not> is_error f \<and> \<not> unprocessable f"
  "is_error f \<Longrightarrow> \<not> is_appendText f \<and> \<not> is_citation f \<and> \<not> is_done f"
  by (auto simp: frame_defs split: frame.splits jsval.splits option.splits)

lemma on_event_nonterminal:
  assumes "\<not> terminal ev"
  shows "settled (on_event m c msg x ev) = settled x"
    and "text (response (on_event m c msg x ev)) = text (response x) @ concat (fragments [ev])"
    and "citations (response (on_event m c msg x ev)) = citations (response x) @ citation_records [ev]"
proof -
  have "settled (on_event m c msg x ev) = settled x \<and>
        text (response (on_event m c msg x ev)) = text (response x) @ concat (fragments [ev]) \<and>
        citations (response (on_event m c msg x ev)) = citations (response x) @ citation_records [ev]"
  proof (cases ev)
    case (OnMessage f)
    with assms have nt: "\<not> is_done f" "\<not> is_error f" "\<not> unprocessable f" by simp_all
    consider "is_appendText f" | "is_citation f" | "\<not> is_appendText f" "\<not> is_citation f" by blast
    then show ?thesis
    proof cases
      case 1
      then show ?thesis using nt OnMessage tags_exclusive(1)[OF 1]
        by (simp add: on_event_def on_message_appendText)
    next
      case 2
      then show ?thesis using nt OnMessage tags_exclusive(2)[OF 2]
        by (simp add: on_event_def on_message_citation)
    next
      case 3
      then show ?thesis using nt OnMessage
        by (simp add: on_event_def on_message_other)
    qed
  qed (use assms in \<open>simp_all add: on_event_def\<close>)
  then show "settled (on_event m c msg x ev) = settled x"
    and "text (response (on_event m c msg x ev)) = text (response x) @ concat (fragments [ev])"
    and "citations (response (on_event m c msg x ev)) = citations (response x) @ citation_records [ev]"
    by simp_all
qed

lemma fragments_append: "fragments (xs @ ys) = fragments xs @ fragments ys"
  by (induction xs rule: fragments.induct) simp_all

lemma citation_records_append: "citation_records (xs @ ys) = citation_records xs @ citation_records ys"
  by (induction xs rule: citation_records.induct) simp_all

lemma run_nonterminal:
  assumes "\<forall>ev\<in>set pre. \<not> terminal ev"
  shows "settled (run m c msg x pre) = settled x"
    and "text (response (run m c msg x pre)) = text (response x) @ concat (fragments pre)"
    and "citations (response (run m c msg x pre)) = citations (response x) @ citation_records pre"
proof -
  have "settled (run m c msg x pre) = settled x \<and>
        text (response (run m c msg x pre)) = text (response x) @ concat (fragments pre) \<and>
        citations (response (run m c msg x pre)) = citations (response x) @ citation_records pre"
    using assms
  proof (induction pre arbitrary: x)
    case Nil
    then show ?case by simp
  next
    case (Cons ev pre)
    have nt: "\<not> terminal ev" using Cons.prems by simp
    have rest: "\<forall>ev\<in>set pre. \<not> terminal ev" using Cons.prems by simp
    have f: "fragments (ev # pre) = fragments [ev] @ fragments pre"
      using fragments_append[of "[ev]" pre] by simp
    have g: "citation_records (ev # pre) = citation_records [ev] @ citation_records pre"
      using citation_records_append[of "[ev]" pre] by simp
    show ?case
      using Cons.IH[OF rest, of "on_event m c msg x ev"] on_event_nonterminal[OF nt, of m c msg x]
      by (simp only: run_Cons f g concat_append append_assoc)
  qed
  then show "settled (run m c msg x pre) = settled x"
    and "text (response (run m c msg x pre)) = text (response x) @ concat (fragments pre)"
    and "citations (response (run m c msg x pre)) = citations (response x) @ citation_records pre"
    by simp_all
qed


lemma unprocessable_fragment:
  "is_appendText f \<Longrightarrow> unprocessable f \<Longrightarrow> fragment f = []"
  by (auto simp: frame_defs fragment_def split: frame.splits jsval.splits option.splits)

lemma unprocessable_error_message:
  "is_error f \<Longrightarrow> unprocessable f \<Longrightarrow> error_message f = process_failed"
  by (auto simp: frame_defs error_message_def split: frame.splits jsval.splits option.splits)

text \<open>
  Whatever the state of the promise, every event adds its fragment or its record to the
  object \<open>response\<close>.
\<close>

lemma on_event_response:
  "text (response (on_event m c msg x ev)) = text (response x) @ concat (fragments [ev]) \<and>
   citations (response (on_event m c msg x ev)) = citations (response x) @ citation_records [ev]"
proof (cases ev)
  case (OnMessage f)
  consider "unprocessable f" | "is_done f" | "is_error f" "\<not> unprocessable f"
    | "is_appendText f" "\<not> unprocessable f" | "is_citation f"
    | "\<not> is_appendText f" "\<not> is_citation f" "\<not> is_done f" "\<not> is_error f" "\<not> unprocessable f"
    by blast
  then show ?thesis
  proof cases
    case 1
    have "\<not> is_citation f" using 1 tags_exclusive(2)[of f] by blast
    then show ?thesis using 1 OnMessage unprocessable_fragment[of f]
      by (simp add: on_event_def on_message_unprocessable)
  next
    case 2
    then show ?thesis using OnMessage tags_exclusive(3)[OF 2]
      by (simp add: on_event_def on_message_done)
  next
    case 3
    then show ?thesis using OnMessage tags_exclusive(4)[OF 3(1)]
      by (simp add: on_event_def on_message_error)
  next
    case 4
    then show ?thesis using OnMessage tags_exclusive(1)[OF 4(1)]
      by (simp add: on_event_def on_message_appendText)
  next
    case 5
    then show ?thesis using OnMessage tags_exclusive(2)[OF 5]
      by (simp add: on_event_def on_message_citation)
  next
    case 6
    then show ?thesis using OnMessage
      by (simp add: on_event_def on_message_other)
  qed
qed (simp_all add: on_event_def)

lemma run_response:
  "text (response (run m c msg x evs)) = text (response x) @ concat (fragments evs) \<and>
   citations (response (run m c msg x evs)) = citations (response x) @ citation_records evs"
proof (induction evs arbitrary: x)
  case Nil
  then show ?case by simp
next
  case (Cons ev evs)
  have f: "fragments (ev # evs) = fragments [ev] @ fragments evs"
    using fragments_append[of "[ev]" evs] by simp
  have g: "citation_records (ev # evs) = citation_records [ev] @ citation_records evs"
    using citation_records_append[of "[ev]" evs] by simp
  show ?case
    using Cons.IH[of "on_event m c msg x ev"] on_event_response[of m c msg x ev]
    by (simp only: run_Cons f g concat_append append_assoc)
qed

lemma response_new_run:
  "response (run m c msg (new_exchange b) evs) =
     \<lparr>text = concat (fragments evs), citations = citation_records evs\<rparr>"
proof -
  have "text (response (run m c msg (new_exchange b) evs)) = concat (fragments evs) \<and>
        citations (response (run m c msg (new_exchange b) evs)) = citation_records evs"
    using run_response[of m c msg "new_exchange b" evs] by (simp add: new_exchange_def)
  then show ?thesis
    by (cases "response (run m c msg (new_exchange b) evs)") simp
qed


lemma await_settled:
  "await x = (case settled x of Pending \<Rightarrow> Pending | Resolved r \<Rightarrow> Resolved (response x)
                | Rejected e \<Rightarrow> Rejected e)"
  by (simp add: await_def deref_def split: promise.splits ref.splits)

lemma run_done:
  assumes "\<forall>ev\<in>set pre. \<not> terminal ev" and "is_done d"
  shows "settled (run m c msg (new_exchange b) (pre @ OnMessage d # post)) = Resolved Response_ref"
proof -
  let ?x = "run m c msg (new_exchange b) pre"
  have p: "settled ?x = Pending"
    using run_nonterminal(1)[OF assms(1), of m c msg "new_exchange b"] by (simp add: new_exchange_def)
  have "settled (on_event m c msg ?x (OnMessage d)) = Resolved Response_ref"
    using p assms(2) by (simp add: on_event_def on_message_done settled_resolve)
  then have "settled (run m c msg (on_event m c msg ?x (OnMessage d)) post) = Resolved Response_ref"
    by (simp add: run_settled)
  then show ?thesis
    by (simp only: run_append run_Cons)
qed

text \<open>
  What the caller reads when a \<open>done\<close> frame has resolved the promise: all that was
  appended before the frame, and all that was appended after it.
\<close>

lemma await_done:
  assumes "\<forall>ev\<in>set pre. \<not> terminal ev" and "is_done d"
  shows "await (run m c msg (new_exchange b) (pre @ OnMessage d # post)) =
         Resolved \<lparr>text = concat (fragments pre) @ concat (fragments post),
                   citations = citation_records pre @ citation_records post\<rparr>"
proof -
  have nd: "\<not> is_appendText d \<and> \<not> is_citation d"
    using tags_exclusive(3)[OF assms(2)] by simp
  have f: "fragments (pre @ OnMessage d # post) = fragments pre @ fragments post"
    using nd fragments_append[of pre "OnMessage d # post"] by simp
  have g: "citation_records (pre @ OnMessage d # post) = citation_records pre @ citation_records post"
    using nd citation_records_append[of pre "OnMessage d # post"] by simp
  show ?thesis
    by (simp add: await_settled run_done[OF assms] response_new_run f g)
qed

lemma run_rejecting:
  assumes "\<forall>ev\<in>set pre. \<not> terminal ev" and "terminal ev" and "\<forall>f. ev = OnMessage f \<longrightarrow> \<not> is_done f"
  shows "settled (run m c msg (new_exchange b) (pre @ ev # post)) =
         Rejected (case ev of
                     OnError e \<Rightarrow> js ''WebSocket error: '' @ e
                   | OnMessage f \<Rightarrow> if unprocessable f then process_failed else error_message f
                   | _ \<Rightarrow> [])"
proof -
  let ?x = "run m c msg (new_exchange b) pre"
  let ?e = "case ev of
                     OnError e \<Rightarrow> js ''WebSocket error: '' @ e
                   | OnMessage f \<Rightarrow> if unprocessable f then process_failed else error_message f
                   | _ \<Rightarrow> []"
  have p: "settled ?x = Pending"
    using run_nonterminal(1)[OF assms(1), of m c msg "new_exchange b"] by (simp add: new_exchange_def)
  have "settled (on_event m c msg ?x ev) = Rejected ?e"
  proof (cases ev)
    case (OnMessage f)
    show ?thesis
    proof (cases "unprocessable f")
      case True
      then show ?thesis using p OnMessage
        by (simp add: on_event_def on_message_unprocessable settled_reject)
    next
      case False
      then have "is_error f" using assms(2,3) OnMessage by simp
      then show ?thesis using p OnMessage False
        by (simp add: on_event_def on_message_error settled_reject)
    qed
  next
    case (OnError e)
    then show ?thesis using p by (simp add: on_event_def settled_reject)
  qed (use assms(2) in simp_all)
  then have "settled (run m c msg (on_event m c msg ?x ev) post) = Rejected ?e"
    by (simp add: run_settled)
  then show ?thesis
    by (simp only: run_append run_Cons)
qed



lemma connect_run:
  assumes "models_get model \<noteq> Missing"
  shows "connect events msg model this b =
           (await (run (models_get model) (conversationId this) msg (new_exchange b) events), this,
            calls (run (models_get model) (conversationId this) msg (new_exchange b) events))"
  using assms by (cases "models_get model") (simp_all add: connect_def Let_def)

lemma chat_connected:
  assumes "has_conversation reply this" and "models_get model \<noteq> Missing"
  shows "\<exists>b this'.
           chat reply events msg model this =
             (await (run (models_get model) (conversationId this') msg (new_exchange b) events),
              this',
              calls (run (models_get model) (conversationId this') msg (new_exchange b) events))"
proof (cases "truthy (conversationId this)")
  case True
  then have "chat reply events msg model this = connect events msg model this []"
    by (simp add: chat_def)
  then show ?thesis
    unfolding connect_run[OF assms(2)] by blast
next
  case False
  then obtain data where d: "reply = AxiosResponse data" "data \<noteq> JNull"
    using assms(1) by (auto simp: has_conversation_def split: post_result.splits)
  have "createConversation reply this =
          (Inr (get data (js ''id'')), this\<lparr>conversationId := get data (js ''id'')\<rparr>)"
    using d by (cases data) (simp_all add: createConversation_def)
  then have "chat reply events msg model this =
               connect events msg model (this\<lparr>conversationId := get data (js ''id'')\<rparr>) [HttpPost]"
    using False by (simp add: chat_def)
  then show ?thesis
    unfolding connect_run[OF assms(2)] by blast
qed

lemma chat_create_failed:
  assumes "\<not> has_conversation reply this"
  shows "chat reply events msg model this = (Rejected create_failed, this, [HttpPost])"
proof -
  have f: "\<not> truthy (conversationId this)" using assms by (simp add: has_conversation_def)
  have "createConversation reply this = (Inl create_failed, this)"
  proof (cases reply)
    case (AxiosError e)
    then show ?thesis by (simp add: createConversation_def)
  next
    case (AxiosResponse data)
    then have "data = JNull" using assms by (simp add: has_conversation_def)
    then show ?thesis using AxiosResponse by (simp add: createConversation_def)
  qed
  then show ?thesis using f by (simp add: chat_def)
qed

lemma chat_missing_model:
  assumes "has_conversation reply this" and "models_get model = Missing"
  shows "\<exists>this'. chat reply events msg model this =
           (Rejected available_models, this', if truthy (conversationId this) then [] else [HttpPost])"
proof (cases "truthy (conversationId this)")
  case True
  then show ?thesis using assms(2) by (simp add: chat_def connect_def)
next
  case False
  then obtain data where d: "reply = AxiosResponse data" "data \<noteq> JNull"
    using assms(1) by (auto simp: has_conversation_def split: post_result.splits)
  have "createConversation reply this =
          (Inr (get data (js ''id'')), this\<lparr>conversationId := get data (js ''id'')\<rparr>)"
    using d by (cases data) (simp_all add: createConversation_def)
  then show ?thesis using False assms(2) by (simp add: chat_def connect_def)
qed

lemma models_get_default: "models_get (js ''default'') = Mode (js ''chat'')"
  by (simp add: models_get_def models_def)

lemma available_models_text:
  "available_models = js ''Available models: default, think-deeper, gpt-5''"
  by (simp add: available_models_def models_def js_def)

lemma trim_Nil [simp]: "trim [] = []"
  by (simp add: trim_def)

lemma post_api_ai_valid:
  assumes "map_of body (js ''query'') = Some (JStr q)" and "trim q \<noteq> []"
    and "finalPrompt (map_of body (js ''customModel'')) (map_of body (js ''language'')) q = Inr prompt"
  shows "post_api_ai reply events body copilot =
           (case chat reply events prompt (js ''default'') copilot of
              (outcome, copilot', done) \<Rightarrow>
                (respond q (Some (length prompt))
                   (Some (or_else (map_of body (js ''customModel'')) (js ''Tidak diatur'')))
                   (Some (or_else (map_of body (js ''language'')) (js ''Indonesia''))) outcome,
                 copilot', done))"
proof -
  have "q \<noteq> []" using assms(2) by auto
  then have "\<not> invalid_query (Some (JStr q))" using assms(2) by (simp add: invalid_query_def)
  then show ?thesis using assms(1,3) by (simp add: post_api_ai_def)
qed

lemma post_api_ai_index_valid:
  assumes "map_of body (js ''query'') = Some (JStr q)" and "trim q \<noteq> []"
  shows "post_api_ai_index reply events body =
           (case chat reply events q (js ''default'') new_Copilot of
              (outcome, copilot', done) \<Rightarrow> (respond q None None None outcome, done))"
proof -
  have "q \<noteq> []" using assms(2) by auto
  then have "\<not> invalid_query (Some (JStr q))" using assms(2) by (simp add: invalid_query_def)
  then show ?thesis using assms(1) by (simp add: post_api_ai_index_def)
qed




lemma invalid_query_400:
  assumes "invalid_query (map_of body (js ''query''))"
  shows "post_api_ai reply events body copilot = (Some bad_request, copilot, [])"
    and "post_api_ai_index reply events body = (Some bad_request, [])"
  using assms by (simp_all add: post_api_ai_def post_api_ai_index_def)

lemma bad_request_fields:
  "res_status bad_request = 400 \<and> res_success bad_request = False \<and>
   res_error bad_request = Some (js ''Bad Request: 'query' field is missing or empty.'')"
  by (simp add: bad_request_def)


section \<open>Validation of the request\<close>

text \<open>
  C3.  A request whose \<open>query\<close> field is missing, or is a string that is blank after
  trimming, is answered with status 400, \<open>success: false\<close> and an error text, by both
  handlers; the adapter is left as it was and no call to the backend is made (no
  conversation request, no socket).
\<close>

theorem blank_or_missing_query_is_400:
  assumes "map_of body (js ''query'') = None \<or>
           (\<exists>q. map_of body (js ''query'') = Some (JStr q) \<and> trim q = [])"
  shows "post_api_ai reply events body copilot = (Some bad_request, copilot, []) \<and>
         post_api_ai_index reply events body = (Some bad_request, []) \<and>
         res_status bad_request = 400 \<and> res_success bad_request = False \<and>
         res_error bad_request = Some (js ''Bad Request: 'query' field is missing or empty.'')"
proof -
  have "invalid_query (map_of body (js ''query''))"
    using assms by (auto simp: invalid_query_def)
  then show ?thesis
    using invalid_query_400[of body] bad_request_fields by simp
qed

theorem blank_or_missing_query_is_400_witness:
  "map_of [(js ''query'', JStr (js ''  \<newline> ''))] (js ''query'') = Some (JStr (js ''  \<newline> '')) \<and>
   trim (js ''  \<newline> '') = [] \<and>
   post_api_ai (AxiosResponse (JObj [(js ''id'', JStr (js ''c1''))])) [OnOpen]
     [(js ''query'', JStr (js ''  \<newline> ''))] new_Copilot = (Some bad_request, new_Copilot, []) \<and>
   post_api_ai_index (AxiosResponse (JObj [(js ''id'', JStr (js ''c1''))])) [OnOpen] [] =
     (Some bad_request, [])"
proof -
  have t: "trim (js ''  \<newline> '') = []"
    by (simp add: trim_def js_def is_white_space_def)
  have a: "map_of [(js ''query'', JStr (js ''  \<newline> ''))] (js ''query'') = None \<or>
           (\<exists>q. map_of [(js ''query'', JStr (js ''  \<newline> ''))] (js ''query'') = Some (JStr q) \<and> trim q = [])"
    using t by simp
  have b: "map_of ([] :: (jsstring \<times> jsval) list) (js ''query'') = None \<or>
           (\<exists>q. map_of ([] :: (jsstring \<times> jsval) list) (js ''query'') = Some (JStr q) \<and> trim q = [])"
    by simp
  show ?thesis
    using t blank_or_missing_query_is_400[OF a] blank_or_missing_query_is_400[OF b] by simp
qed

text \<open>
  C9.  A request whose \<open>query\<close> field is present but is not a string (\<open>null\<close>, a boolean, a
  number, an array, an object) gets the same 400 answer as a missing one, and no call to
  the backend is made.
\<close>

theorem non_string_query_is_400:
  assumes "map_of body (js ''query'') = Some v" and "\<forall>s. v \<noteq> JStr s"
  shows "post_api_ai reply events body copilot = (Some bad_request, copilot, []) \<and>
         post_api_ai_index reply events body = (Some bad_request, []) \<and>
         res_status bad_request = 400 \<and> res_success bad_request = False \<and>
         res_error bad_request = Some (js ''Bad Request: 'query' field is missing or empty.'')"
proof -
  have "invalid_query (map_of body (js ''query''))"
    using assms by (cases v) (simp_all add: invalid_query_def)
  then show ?thesis
    using invalid_query_400[of body] bad_request_fields by simp
qed

theorem non_string_query_is_400_witness:
  "post_api_ai (AxiosResponse (JObj [(js ''id'', JStr (js ''c1''))])) [OnOpen]
     [(js ''query'', JNum (js ''42''))] new_Copilot = (Some bad_request, new_Copilot, []) \<and>
   post_api_ai_index (AxiosResponse (JObj [(js ''id'', JStr (js ''c1''))])) [OnOpen]
     [(js ''query'', JArr [JStr (js ''Halo'')])] = (Some bad_request, [])"
proof -
  have a: "map_of [(js ''query'', JNum (js ''42''))] (js ''query'') = Some (JNum (js ''42''))"
    by simp
  have b: "map_of [(js ''query'', JArr [JStr (js ''Halo'')])] (js ''query'') = Some (JArr [JStr (js ''Halo'')])"
    by simp
  show ?thesis
    using non_string_query_is_400[OF a] non_string_query_is_400[OF b] by simp
qed


section \<open>The conversation identity\<close>

lemma calls_on_message: "\<exists>r. calls (on_message f x) = calls x @ r"
proof -
  have c: "\<And>e y. calls (reject e y) = calls y" by (simp add: reject_def)
  have d: "\<And>v y. calls (resolve v y) = calls y" by (simp add: resolve_def)
  consider "unprocessable f" | "is_done f" | "is_error f" "\<not> unprocessable f"
    | "is_appendText f" "\<not> unprocessable f" | "is_citation f"
    | "\<not> is_appendText f" "\<not> is_citation f" "\<not> is_done f" "\<not> is_error f" "\<not> unprocessable f"
    by blast
  then show ?thesis
  proof cases
    case 1 then show ?thesis by (simp add: on_message_unprocessable c)
  next
    case 2 then show ?thesis by (simp add: on_message_done ws_close_def d)
  next
    case 3 then show ?thesis by (simp add: on_message_error ws_close_def c)
  next
    case 4 then show ?thesis by (simp add: on_message_appendText)
  next
    case 5 then show ?thesis by (simp add: on_message_citation)
  next
    case 6 then show ?thesis by (simp add: on_message_other)
  qed
qed

lemma calls_on_event: "\<exists>r. calls (on_event m c msg x ev) = calls x @ r"
  by (cases ev) (simp_all add: on_event_def calls_on_message reject_def)

lemma calls_run: "\<exists>r. calls (run m c msg x evs) = calls x @ r"
proof (induction evs arbitrary: x)
  case Nil
  then show ?case by simp
next
  case (Cons ev evs)
  obtain r1 where r1: "calls (on_event m c msg x ev) = calls x @ r1"
    using calls_on_event by blast
  obtain r2 where "calls (run m c msg (on_event m c msg x ev) evs) = calls (on_event m c msg x ev) @ r2"
    using Cons.IH by blast
  then show ?case using r1 by simp
qed

lemma chat_without_conversation_posts:
  assumes "\<not> truthy (conversationId this)"
  shows "\<exists>rest. snd (snd (chat reply events msg model this)) = HttpPost # rest"
proof (cases "has_conversation reply this")
  case False
  then show ?thesis by (simp add: chat_create_failed)
next
  case True
  then obtain data where d: "reply = AxiosResponse data" "data \<noteq> JNull"
    using assms by (auto simp: has_conversation_def split: post_result.splits)
  have cc: "createConversation reply this =
          (Inr (get data (js ''id'')), this\<lparr>conversationId := get data (js ''id'')\<rparr>)"
    using d by (cases data) (simp_all add: createConversation_def)
  let ?adapter = "this\<lparr>conversationId := get data (js ''id'')\<rparr>"
  have ch: "chat reply events msg model this = connect events msg model ?adapter [HttpPost]"
    using assms cc by (simp add: chat_def)
  show ?thesis
  proof (cases "models_get model = Missing")
    case True
    then show ?thesis using ch by (simp add: connect_def)
  next
    case False
    obtain r where "calls (run (models_get model) (conversationId ?adapter) msg (new_exchange [HttpPost]) events)
                     = calls (new_exchange [HttpPost]) @ r"
      using calls_run by blast
    then show ?thesis using ch connect_run[OF False, of events msg ?adapter "[HttpPost]"]
      by (simp add: new_exchange_def)
  qed
qed

text \<open>
  C6.  When the conversation request fails (\<open>axios.post\<close> throws: no answer, or a status
  outside 2xx), \<open>createConversation\<close> throws the fixed error and leaves the adapter as it
  was.  A \<open>chat\<close> that had no identity cached then rejects with that error after the one
  request, without opening a socket, and any later \<open>chat\<close> on the adapter begins with a
  conversation request again.
\<close>

theorem failed_creation_caches_nothing:
  assumes "\<not> truthy (conversationId this)"
  shows "createConversation (AxiosError e) this = (Inl create_failed, this) \<and>
         chat (AxiosError e) events msg model this = (Rejected create_failed, this, [HttpPost]) \<and>
         (\<forall>reply' events' msg' model'.
            \<exists>rest. snd (snd (chat reply' events' msg' model' this)) = HttpPost # rest)"
proof -
  have "\<not> has_conversation (AxiosError e) this"
    using assms by (simp add: has_conversation_def)
  then have "chat (AxiosError e) events msg model this = (Rejected create_failed, this, [HttpPost])"
    by (rule chat_create_failed)
  moreover have "createConversation (AxiosError e) this = (Inl create_failed, this)"
    by (simp add: createConversation_def)
  ultimately show ?thesis
    using chat_without_conversation_posts[OF assms] by blast
qed

theorem failed_creation_caches_nothing_witness:
  "\<not> truthy (conversationId new_Copilot) \<and>
   chat (AxiosError (js ''Request failed with status code 503'')) [OnOpen] (js ''Halo'')
     (js ''default'') new_Copilot = (Rejected create_failed, new_Copilot, [HttpPost]) \<and>
   (\<exists>rest. snd (snd (chat (AxiosResponse (JObj [(js ''id'', JStr (js ''c1''))])) [OnOpen]
      (js ''Halo'') (js ''default'') new_Copilot)) = HttpPost # rest)"
proof -
  have a: "\<not> truthy (conversationId new_Copilot)"
    by (simp add: new_Copilot_def)
  show ?thesis
    using a failed_creation_caches_nothing[OF a] by blast
qed

section \<open>The prompt\<close>

text \<open>The delimiter, code unit by code unit: the line breaks are line feeds.\<close>

lemma delimiter_text:
  "js ''\<newline>\<newline>---\<newline>\<newline>PERTANYAAN:\<newline>'' =
     [0xA, 0xA, 0x2D, 0x2D, 0x2D, 0xA, 0xA] @ js ''PERTANYAAN:'' @ [0xA]"
  by (simp add: js_def)

text \<open>
  C10.  A \<open>customModel\<close> that is a string and blank after trimming adds no persona
  instruction: the prompt is the one built without \<open>customModel\<close>, namely the language
  instruction, the delimiter and the query, and this is the message the handler passes
  to \<open>chat\<close>.
\<close>

theorem blank_persona_is_absent:
  assumes "map_of body (js ''customModel'') = Some (JStr p)" and "trim p = []"
    and "map_of body (js ''query'') = Some (JStr q)" and "trim q \<noteq> []"
    and "to_string (or_else (map_of body (js ''language'')) (js ''Indonesia'')) = Some lang"
  shows "persona_instruction (Some (JStr p)) = Inr [] \<and>
         finalPrompt (Some (JStr p)) (map_of body (js ''language'')) q =
           finalPrompt None (map_of body (js ''language'')) q \<and>
         finalPrompt (Some (JStr p)) (map_of body (js ''language'')) q =
           Inr (language_instruction lang @ js ''\<newline>\<newline>---\<newline>\<newline>PERTANYAAN:\<newline>'' @ q) \<and>
         snd (snd (post_api_ai reply events body copilot)) =
           snd (snd (chat reply events
             (language_instruction lang @ js ''\<newline>\<newline>---\<newline>\<newline>PERTANYAAN:\<newline>'' @ q)
             (js ''default'') copilot))"
proof -
  have p: "persona_instruction (Some (JStr p)) = Inr []"
    using assms(2) by (simp add: persona_instruction_def)
  have n: "persona_instruction None = Inr []"
    by (simp add: persona_instruction_def)
  have f: "finalPrompt (Some (JStr p)) (map_of body (js ''language'')) q =
           Inr (language_instruction lang @ js ''\<newline>\<newline>---\<newline>\<newline>PERTANYAAN:\<newline>'' @ q)"
    using assms(5) by (simp add: finalPrompt_def p)
  have g: "finalPrompt None (map_of body (js ''language'')) q =
           Inr (language_instruction lang @ js ''\<newline>\<newline>---\<newline>\<newline>PERTANYAAN:\<newline>'' @ q)"
    using assms(5) by (simp add: finalPrompt_def n)
  have "finalPrompt (map_of body (js ''customModel'')) (map_of body (js ''language'')) q =
           Inr (language_instruction lang @ js ''\<newline>\<newline>---\<newline>\<newline>PERTANYAAN:\<newline>'' @ q)"
    using f assms(1) by simp
  from post_api_ai_valid[OF assms(3,4) this, of reply events copilot]
  have "snd (snd (post_api_ai reply events body copilot)) =
           snd (snd (chat reply events
             (language_instruction lang @ js ''\<newline>\<newline>---\<newline>\<newline>PERTANYAAN:\<newline>'' @ q)
             (js ''default'') copilot))"
    by (simp add: split_beta)
  then show ?thesis using p f g by simp
qed


theorem blank_persona_is_absent_witness:
  "trim (js ''   '') = [] \<and> trim (js ''Halo'') \<noteq> [] \<and>
   finalPrompt (Some (JStr (js ''   ''))) None (js ''Halo'') =
     Inr (js ''Anda harus menjawab secara eksklusif dalam Bahasa Indonesia.\<newline>\<newline>---\<newline>\<newline>PERTANYAAN:\<newline>Halo'') \<and>
   snd (snd (post_api_ai (AxiosError []) []
       [(js ''query'', JStr (js ''Halo'')), (js ''customModel'', JStr (js ''   ''))] new_Copilot)) =
     snd (snd (chat (AxiosError []) []
       (js ''Anda harus menjawab secara eksklusif dalam Bahasa Indonesia.\<newline>\<newline>---\<newline>\<newline>PERTANYAAN:\<newline>Halo'')
       (js ''default'') new_Copilot))"
proof -
  let ?body = "[(js ''query'', JStr (js ''Halo'')), (js ''customModel'', JStr (js ''   ''))]"
  have a: "map_of ?body (js ''customModel'') = Some (JStr (js ''   ''))" by simp
  have b: "trim (js ''   '') = []" by (simp add: trim_def js_def is_white_space_def)
  have c: "map_of ?body (js ''query'') = Some (JStr (js ''Halo''))" by simp
  have d: "trim (js ''Halo'') \<noteq> []" by (simp add: trim_def js_def is_white_space_def)
  have e: "to_string (or_else (map_of ?body (js ''language'')) (js ''Indonesia'')) = Some (js ''Indonesia'')"
    by simp
  have f: "language_instruction (js ''Indonesia'') @ js ''\<newline>\<newline>---\<newline>\<newline>PERTANYAAN:\<newline>'' @ js ''Halo'' =
     js ''Anda harus menjawab secara eksklusif dalam Bahasa Indonesia.\<newline>\<newline>---\<newline>\<newline>PERTANYAAN:\<newline>Halo''"
    by (simp add: language_instruction_def js_def)
  have g: "map_of ?body (js ''language'') = None" by simp
  note r = blank_persona_is_absent[OF a b c d e, of "AxiosError []" "[]" new_Copilot,
      unfolded f g]
  show ?thesis
    using b d r by blast
qed

section \<open>The model selector\<close>

text \<open>
  C4, as amended.  \<open>chat\<close> looks for a conversation identity before it looks at the
  model.  For a model that is neither a key of \<open>models\<close> nor a name that \<open>models\<close>
  inherits from \<open>Object.prototype\<close>, \<open>chat\<close> rejects and opens no socket; the error lists
  the model names when an identity is cached or the conversation request succeeds, and is
  the error of \<open>createConversation\<close> when that request fails.
\<close>

theorem unknown_model_opens_no_connection:
  assumes "model \<notin> fst ` set models" and "model \<notin> set object_prototype_keys"
  shows "\<exists>this' done.
           chat reply events msg model this =
             (Rejected (if has_conversation reply this then available_models else create_failed),
              this', done) \<and>
           WsConnect \<notin> set done \<and> (\<forall>out. WsSend out \<notin> set done) \<and>
           available_models = js ''Available models: default, think-deeper, gpt-5''"
proof -
  have "map_of models model = None"
    using assms(1) by (simp add: map_of_eq_None_iff)
  then have m: "models_get model = Missing"
    using assms(2) by (simp add: models_get_def)
  show ?thesis
  proof (cases "has_conversation reply this")
    case True
    then show ?thesis
      using chat_missing_model[OF True m, of events msg] available_models_text by auto
  next
    case False
    then show ?thesis
      using chat_create_failed[OF False, of events msg model] available_models_text by auto
  qed
qed

theorem unknown_model_opens_no_connection_witness:
  "js ''gpt-4'' \<notin> fst ` set models \<and> js ''gpt-4'' \<notin> set object_prototype_keys \<and>
   (\<exists>this' done.
      chat (AxiosResponse (JObj [(js ''id'', JStr (js ''c1''))])) [OnOpen] (js ''Halo'') (js ''gpt-4'')
        new_Copilot = (Rejected available_models, this', done) \<and> WsConnect \<notin> set done)"
proof -
  have a: "js ''gpt-4'' \<notin> fst ` set models" by (simp add: models_def)
  have b: "js ''gpt-4'' \<notin> set object_prototype_keys" by (simp add: object_prototype_keys_def)
  have c: "has_conversation (AxiosResponse (JObj [(js ''id'', JStr (js ''c1''))])) new_Copilot"
    by (simp add: has_conversation_def)
  show ?thesis
    using a b c unknown_model_opens_no_connection[OF a b,
        of "AxiosResponse (JObj [(js ''id'', JStr (js ''c1''))])" "[OnOpen]" "js ''Halo''" new_Copilot]
    by auto
qed

text \<open>
  C4 as stated fails on a new adapter whose conversation request fails: the model
  \<open>gpt-4\<close> is not in \<open>models\<close>, and the error is not the list of models.
\<close>

theorem unknown_model_counterexample:
  "js ''gpt-4'' \<notin> fst ` set models \<and>
   fst (chat (AxiosError (js ''Network Error'')) [] (js ''Halo'') (js ''gpt-4'') new_Copilot) =
     Rejected (js ''Failed to create a new conversation with the AI service.'') \<and>
   js ''Failed to create a new conversation with the AI service.'' \<noteq>
     js ''Available models: default, think-deeper, gpt-5'' \<and>
   available_models = js ''Available models: default, think-deeper, gpt-5''"
  by (simp add: models_def chat_def createConversation_def new_Copilot_def create_failed_def
      available_models_text)

text \<open>
  A name inherited from \<open>Object.prototype\<close> passes the test \<open>!this.models[model]\<close>, and
  the socket is opened.
\<close>

lemma inherited_model_name_connects:
  "js ''constructor'' \<notin> fst ` set models \<and>
   chat reply [] msg (js ''constructor'') \<lparr>conversationId = Some (JStr (js ''c1''))\<rparr> =
     (Pending, \<lparr>conversationId = Some (JStr (js ''c1''))\<rparr>, [WsConnect])"
  by (simp add: models_def chat_def connect_def models_get_def object_prototype_keys_def
      new_exchange_def await_def)



section \<open>The exchange\<close>





text \<open>
  \<open>chat\<close> with a conversation and a model it knows: what the caller gets when a \<open>done\<close>
  frame arrives while the exchange is open.
\<close>

lemma chat_done:
  assumes "has_conversation reply this" and "models_get model \<noteq> Missing"
    and "\<forall>ev\<in>set pre. \<not> terminal ev" and "is_done d"
  shows "fst (chat reply (pre @ OnMessage d # post) msg model this) =
           Resolved \<lparr>text = concat (fragments pre) @ concat (fragments post),
                     citations = citation_records pre @ citation_records post\<rparr>"
proof -
  obtain b this' where
    "chat reply (pre @ OnMessage d # post) msg model this =
       (await (run (models_get model) (conversationId this') msg (new_exchange b)
          (pre @ OnMessage d # post)), this',
        calls (run (models_get model) (conversationId this') msg (new_exchange b)
          (pre @ OnMessage d # post)))"
    using chat_connected[OF assms(1,2)] by blast
  then show ?thesis
    by (simp add: await_done[OF assms(3,4)])
qed

lemma chat_error_frame:
  assumes "has_conversation reply this" and "models_get model \<noteq> Missing"
    and "\<forall>ev\<in>set pre. \<not> terminal ev" and "is_error f"
  shows "fst (chat reply (pre @ OnMessage f # post) msg model this) = Rejected (error_message f)"
proof -
  have t: "terminal (OnMessage f)" using assms(4) by simp
  have nd: "\<forall>g. OnMessage f = OnMessage g \<longrightarrow> \<not> is_done g"
    using tags_exclusive(4)[OF assms(4)] by simp
  have "\<And>m c b. settled (run m c msg (new_exchange b) (pre @ OnMessage f # post)) =
               Rejected (error_message f)"
    using run_rejecting[OF assms(3) t nd] unprocessable_error_message[OF assms(4)] by simp
  then have a: "\<And>m c b. await (run m c msg (new_exchange b) (pre @ OnMessage f # post)) =
               Rejected (error_message f)"
    by (simp add: await_settled)
  obtain b this' where
    "chat reply (pre @ OnMessage f # post) msg model this =
       (await (run (models_get model) (conversationId this') msg (new_exchange b)
          (pre @ OnMessage f # post)), this',
        calls (run (models_get model) (conversationId this') msg (new_exchange b)
          (pre @ OnMessage f # post)))"
    using chat_connected[OF assms(1,2)] by blast
  then show ?thesis
    by (simp add: a)
qed


lemma scenario_frames:
  "is_appendText (appendText_frame s)" "\<not> unprocessable (appendText_frame s)"
  "\<not> is_done (appendText_frame s)" "\<not> is_error (appendText_frame s)"
  "\<not> is_citation (appendText_frame s)" "fragment (appendText_frame s) = s"
  "is_done done_frame" "\<not> is_appendText done_frame" "\<not> is_citation done_frame"
  by (simp_all add: frame_defs appendText_frame_def done_frame_def fragment_def)

lemma has_conversation_new: "has_conversation (AxiosResponse (JObj kvs)) new_Copilot"
  by (simp add: has_conversation_def)

text \<open>
  C1.  The text of the result is the concatenation of the fragments received before the
  \<open>done\<close> frame only as long as no \<open>appendText\<close> frame follows it.  The promise is resolved
  with the object \<open>response\<close> itself and the \<open>message\<close> callback goes on appending to it:
  with \<open>appendText "Hi"\<close>, \<open>done\<close> the caller reads \<open>Hi\<close>, and with a further
  \<open>appendText " LATE"\<close> handled before the caller reads, it reads \<open>Hi LATE\<close>.
\<close>

theorem late_appendText_reaches_the_result:
  "fst (chat (AxiosResponse (JObj [(js ''id'', JStr (js ''c1''))]))
          ([OnOpen, OnMessage (appendText_frame (js ''Hi''))] @ OnMessage done_frame # [])
          (js ''Halo'') (js ''default'') new_Copilot) =
     Resolved \<lparr>text = js ''Hi'', citations = []\<rparr> \<and>
   fst (chat (AxiosResponse (JObj [(js ''id'', JStr (js ''c1''))]))
          ([OnOpen, OnMessage (appendText_frame (js ''Hi''))] @ OnMessage done_frame #
           [OnMessage (appendText_frame (js '' LATE''))])
          (js ''Halo'') (js ''default'') new_Copilot) =
     Resolved \<lparr>text = js ''Hi LATE'', citations = []\<rparr>"
proof -
  have m: "models_get (js ''default'') \<noteq> Missing" by (simp add: models_get_default)
  have p: "\<forall>ev\<in>set [OnOpen, OnMessage (appendText_frame (js ''Hi''))]. \<not> terminal ev"
    by (simp add: scenario_frames)
  have j: "js ''Hi'' @ js '' LATE'' = js ''Hi LATE''" by (simp add: js_def)
  show ?thesis
    using chat_done[OF has_conversation_new m p scenario_frames(7),
        where post = "[]" and msg = "js ''Halo''"]
      chat_done[OF has_conversation_new m p scenario_frames(7),
        where post = "[OnMessage (appendText_frame (js '' LATE''))]" and msg = "js ''Halo''"]
    by (simp add: scenario_frames j)
qed







section \<open>The answer of the handler\<close>

lemma post_api_ai_outcome:
  assumes "map_of body (js ''query'') = Some (JStr q)" and "trim q \<noteq> []"
    and "finalPrompt (map_of body (js ''customModel'')) (map_of body (js ''language'')) q = Inr prompt"
  shows "fst (post_api_ai reply events body copilot) =
           respond q (Some (length prompt))
             (Some (or_else (map_of body (js ''customModel'')) (js ''Tidak diatur'')))
             (Some (or_else (map_of body (js ''language'')) (js ''Indonesia'')))
             (fst (chat reply events prompt (js ''default'') copilot))"
  by (simp add: post_api_ai_valid[OF assms] split_beta)

lemma post_api_ai_index_outcome:
  assumes "map_of body (js ''query'') = Some (JStr q)" and "trim q \<noteq> []"
  shows "fst (post_api_ai_index reply events body) =
           respond q None None None (fst (chat reply events q (js ''default'') new_Copilot))"
  by (simp add: post_api_ai_index_valid[OF assms] split_beta)

lemma respond_Resolved:
  "\<exists>r. respond q n c l (Resolved a) = Some r \<and> res_status r = 200 \<and> res_success r \<and>
       res_response r = Some (trim (text a)) \<and> res_citations r = Some (citations a)"
  by (simp add: respond_def)

lemma respond_Rejected: "respond q n c l (Rejected m) = Some (server_error m)"
  by (simp add: respond_def)

lemma server_error_fields:
  "res_status (server_error m) = 500 \<and> res_success (server_error m) = False \<and>
   res_message (server_error m) = Some m"
  by (simp add: server_error_def)


lemma finalPrompt_Halo:
  "finalPrompt None None (js ''Halo'') =
     Inr (js ''Anda harus menjawab secara eksklusif dalam Bahasa Indonesia.\<newline>\<newline>---\<newline>\<newline>PERTANYAAN:\<newline>Halo'')"
  by (simp add: finalPrompt_def persona_instruction_def language_instruction_def js_def)

lemma trim_Halo: "trim (js ''Halo'') \<noteq> []"
  by (simp add: trim_def js_def is_white_space_def)

lemma trim_Hi_there: "trim (js ''Hi there'') = js ''Hi there''"
  by (simp add: trim_def js_def is_white_space_def)


lemma trim_LATE: "trim (js ''LATE'') = js ''LATE''"
  by (simp add: trim_def js_def is_white_space_def)

text \<open>
  C7.  A \<open>done\<close> frame with nothing before it gives \<open>response: ""\<close> and \<open>citations: []\<close>
  only as long as no \<open>appendText\<close> or \<open>citation\<close> frame follows it before the handler
  reads the result: with \<open>done\<close> alone both handlers answer with the empty string, and
  with \<open>done\<close>, \<open>appendText "LATE"\<close> they answer with \<open>LATE\<close>.
\<close>

theorem late_appendText_reaches_the_answer:
  "map_option res_response
     (fst (post_api_ai (AxiosResponse (JObj [(js ''id'', JStr (js ''c1''))]))
        ([OnOpen] @ OnMessage done_frame # [])
        [(js ''query'', JStr (js ''Halo''))] new_Copilot)) = Some (Some []) \<and>
   map_option res_response
     (fst (post_api_ai (AxiosResponse (JObj [(js ''id'', JStr (js ''c1''))]))
        ([OnOpen] @ OnMessage done_frame # [OnMessage (appendText_frame (js ''LATE''))])
        [(js ''query'', JStr (js ''Halo''))] new_Copilot)) = Some (Some (js ''LATE'')) \<and>
   map_option res_response
     (fst (post_api_ai_index (AxiosResponse (JObj [(js ''id'', JStr (js ''c1''))]))
        ([OnOpen] @ OnMessage done_frame # [])
        [(js ''query'', JStr (js ''Halo''))])) = Some (Some []) \<and>
   map_option res_response
     (fst (post_api_ai_index (AxiosResponse (JObj [(js ''id'', JStr (js ''c1''))]))
        ([OnOpen] @ OnMessage done_frame # [OnMessage (appendText_frame (js ''LATE''))])
        [(js ''query'', JStr (js ''Halo''))])) = Some (Some (js ''LATE''))"
proof -
  let ?body = "[(js ''query'', JStr (js ''Halo''))]"
  have q: "map_of ?body (js ''query'') = Some (JStr (js ''Halo''))" by simp
  have fp: "finalPrompt (map_of ?body (js ''customModel'')) (map_of ?body (js ''language''))
      (js ''Halo'') =
     Inr (js ''Anda harus menjawab secara eksklusif dalam Bahasa Indonesia.\<newline>\<newline>---\<newline>\<newline>PERTANYAAN:\<newline>Halo'')"
    using finalPrompt_Halo by simp
  have m: "models_get (js ''default'') \<noteq> Missing" by (simp add: models_get_default)
  have p: "\<forall>ev\<in>set [OnOpen]. \<not> terminal ev" by simp
  have d1: "\<And>msg. fst (chat (AxiosResponse (JObj [(js ''id'', JStr (js ''c1''))]))
        [OnOpen, OnMessage done_frame] msg (js ''default'') new_Copilot) =
      Resolved \<lparr>text = [], citations = []\<rparr>"
    using chat_done[OF has_conversation_new m p scenario_frames(7), where post = "[]"]
    by simp
  have d2: "\<And>msg. fst (chat (AxiosResponse (JObj [(js ''id'', JStr (js ''c1''))]))
        [OnOpen, OnMessage done_frame, OnMessage (appendText_frame (js ''LATE''))] msg
        (js ''default'') new_Copilot) =
      Resolved \<lparr>text = js ''LATE'', citations = []\<rparr>"
    using chat_done[OF has_conversation_new m p scenario_frames(7),
        where post = "[OnMessage (appendText_frame (js ''LATE''))]"]
    by (simp add: scenario_frames)
  show ?thesis
    by (simp add: post_api_ai_outcome[OF q trim_Halo fp] post_api_ai_index_outcome[OF q trim_Halo]
        d1 d2 respond_def trim_LATE)
qed


section \<open>Scenarios\<close>

lemma scenario_run:
  "run m c msg (new_exchange b)
     [OnOpen, OnMessage (appendText_frame (js ''Hi'')), OnMessage (appendText_frame (js '' there'')),
      OnMessage done_frame] =
   \<lparr>response = \<lparr>text = js ''Hi there'', citations = []\<rparr>,
    settled = Resolved Response_ref,
    calls = b @ [WsConnect, WsSend SetOptions, WsSend (Send m c msg), WsClose]\<rparr>"
  by (simp add: on_event_def on_message_def appendText_frame_def done_frame_def new_exchange_def
      resolve_def ws_close_def js_append[symmetric])

lemma scenario_await:
  "await (run m c msg (new_exchange b)
     [OnOpen, OnMessage (appendText_frame (js ''Hi'')), OnMessage (appendText_frame (js '' there'')),
      OnMessage done_frame]) = Resolved \<lparr>text = js ''Hi there'', citations = []\<rparr>"
  by (simp only: scenario_run) (simp add: await_def deref_def)

lemma scenario_calls:
  "calls (run m c msg (new_exchange b)
     [OnOpen, OnMessage (appendText_frame (js ''Hi'')), OnMessage (appendText_frame (js '' there'')),
      OnMessage done_frame]) = b @ [WsConnect, WsSend SetOptions, WsSend (Send m c msg), WsClose]"
  by (simp only: scenario_run) simp


lemma chat_explicit:
  assumes "has_conversation reply this"
  shows "\<exists>b this'. chat reply events msg (js ''default'') this =
           (await (run (Mode (js ''chat'')) (conversationId this') msg (new_exchange b) events),
            this',
            calls (run (Mode (js ''chat'')) (conversationId this') msg (new_exchange b) events))"
proof -
  have "models_get (js ''default'') \<noteq> Missing" by (simp add: models_get_default)
  from chat_connected[OF assms this, of events msg]
  show ?thesis by (simp only: models_get_default)
qed

text \<open>
  C2, as amended.  Take a request whose body has the query \<open>Halo\<close> and neither
  \<open>customModel\<close> nor \<open>language\<close>, a conversation that is cached or can be created, and a
  backend that, once the socket is open, streams \<open>appendText "Hi"\<close>,
  \<open>appendText " there"\<close>, \<open>done\<close>.  The handler that builds the prompt sends to the
  backend exactly the language instruction for \<open>Indonesia\<close>, the delimiter and \<open>Halo\<close>;
  the handler of \<open>src/index.js\<close> sends the query \<open>Halo\<close> itself.  Both answer with status
  200, \<open>success: true\<close>, \<open>response: "Hi there"\<close> and \<open>citations: []\<close>.
\<close>

theorem halo_scenario:
  assumes "map_of body (js ''query'') = Some (JStr (js ''Halo''))"
    and "map_of body (js ''customModel'') = None" and "map_of body (js ''language'') = None"
    and "has_conversation reply copilot"
  shows "finalPrompt (map_of body (js ''customModel'')) (map_of body (js ''language'')) (js ''Halo'') =
           Inr (js ''Anda harus menjawab secara eksklusif dalam Bahasa Indonesia.\<newline>\<newline>---\<newline>\<newline>PERTANYAAN:\<newline>Halo'') \<and>
         (\<exists>r copilot' done.
            post_api_ai reply
              [OnOpen, OnMessage (appendText_frame (js ''Hi'')),
               OnMessage (appendText_frame (js '' there'')), OnMessage done_frame]
              body copilot = (Some r, copilot', done) \<and>
            WsSend (Send (Mode (js ''chat'')) (conversationId copilot')
              (js ''Anda harus menjawab secara eksklusif dalam Bahasa Indonesia.\<newline>\<newline>---\<newline>\<newline>PERTANYAAN:\<newline>Halo''))
              \<in> set done \<and>
            res_status r = 200 \<and> res_success r \<and>
            res_response r = Some (js ''Hi there'') \<and> res_citations r = Some []) \<and>
         (has_conversation reply new_Copilot \<longrightarrow>
            (\<exists>r cid done.
               post_api_ai_index reply
                 [OnOpen, OnMessage (appendText_frame (js ''Hi'')),
                  OnMessage (appendText_frame (js '' there'')), OnMessage done_frame]
                 body = (Some r, done) \<and>
               WsSend (Send (Mode (js ''chat'')) cid (js ''Halo'')) \<in> set done \<and>
               res_status r = 200 \<and> res_success r \<and>
               res_response r = Some (js ''Hi there'') \<and> res_citations r = Some []))"
proof -
  let ?prompt = "js ''Anda harus menjawab secara eksklusif dalam Bahasa Indonesia.\<newline>\<newline>---\<newline>\<newline>PERTANYAAN:\<newline>Halo''"
  let ?events = "[OnOpen, OnMessage (appendText_frame (js ''Hi'')),
               OnMessage (appendText_frame (js '' there'')), OnMessage done_frame]"
  have fp: "finalPrompt (map_of body (js ''customModel'')) (map_of body (js ''language'')) (js ''Halo'') =
           Inr ?prompt"
    using assms(2,3) finalPrompt_Halo by simp
  obtain b copilot' where ch: "chat reply ?events ?prompt (js ''default'') copilot =
      (Resolved \<lparr>text = js ''Hi there'', citations = []\<rparr>, copilot',
       b @ [WsConnect, WsSend SetOptions,
            WsSend (Send (Mode (js ''chat'')) (conversationId copilot') ?prompt), WsClose])"
    using chat_explicit[OF assms(4), of ?events ?prompt]
    by (auto simp only: scenario_await scenario_calls)
  obtain r where r: "respond (js ''Halo'') (Some (length ?prompt))
      (Some (or_else (map_of body (js ''customModel'')) (js ''Tidak diatur'')))
      (Some (or_else (map_of body (js ''language'')) (js ''Indonesia'')))
      (Resolved \<lparr>text = js ''Hi there'', citations = []\<rparr>) = Some r"
    "res_status r = 200" "res_success r" "res_response r = Some (trim (js ''Hi there''))"
    "res_citations r = Some []"
    using respond_Resolved[of "js ''Halo''" "Some (length ?prompt)"
      "Some (or_else (map_of body (js ''customModel'')) (js ''Tidak diatur''))"
      "Some (or_else (map_of body (js ''language'')) (js ''Indonesia''))"
      "\<lparr>text = js ''Hi there'', citations = []\<rparr>"] by auto
  have "post_api_ai reply ?events body copilot =
          (Some r, copilot',
           b @ [WsConnect, WsSend SetOptions,
            WsSend (Send (Mode (js ''chat'')) (conversationId copilot') ?prompt), WsClose])"
    using post_api_ai_valid[OF assms(1) trim_Halo fp, of reply ?events copilot] ch r(1) by simp
  moreover have "WsSend (Send (Mode (js ''chat'')) (conversationId copilot') ?prompt)
          \<in> set (b @ [WsConnect, WsSend SetOptions,
            WsSend (Send (Mode (js ''chat'')) (conversationId copilot') ?prompt), WsClose])"
    by simp
  moreover have "res_response r = Some (js ''Hi there'')"
    using r(4) by (simp only: trim_Hi_there)
  ultimately have part: "\<exists>r copilot' done.
            post_api_ai reply ?events body copilot = (Some r, copilot', done) \<and>
            WsSend (Send (Mode (js ''chat'')) (conversationId copilot') ?prompt) \<in> set done \<and>
            res_status r = 200 \<and> res_success r \<and>
            res_response r = Some (js ''Hi there'') \<and> res_citations r = Some []"
    using r(2,3,5) by blast
  have index: "has_conversation reply new_Copilot \<longrightarrow>
            (\<exists>r cid done.
               post_api_ai_index reply ?events body = (Some r, done) \<and>
               WsSend (Send (Mode (js ''chat'')) cid (js ''Halo'')) \<in> set done \<and>
               res_status r = 200 \<and> res_success r \<and>
               res_response r = Some (js ''Hi there'') \<and> res_citations r = Some [])"
  proof
    assume h: "has_conversation reply new_Copilot"
    obtain b' adapter where ch': "chat reply ?events (js ''Halo'') (js ''default'') new_Copilot =
      (Resolved \<lparr>text = js ''Hi there'', citations = []\<rparr>, adapter,
       b' @ [WsConnect, WsSend SetOptions,
            WsSend (Send (Mode (js ''chat'')) (conversationId adapter) (js ''Halo'')), WsClose])"
      using chat_explicit[OF h, of ?events "js ''Halo''"]
      by (auto simp only: scenario_await scenario_calls)
    obtain r' where r': "respond (js ''Halo'') None None None
        (Resolved \<lparr>text = js ''Hi there'', citations = []\<rparr>) = Some r'"
      "res_status r' = 200" "res_success r'" "res_response r' = Some (trim (js ''Hi there''))"
      "res_citations r' = Some []"
      using respond_Resolved[of "js ''Halo''" None None None
        "\<lparr>text = js ''Hi there'', citations = []\<rparr>"] by auto
    have "post_api_ai_index reply ?events body =
          (Some r',
           b' @ [WsConnect, WsSend SetOptions,
            WsSend (Send (Mode (js ''chat'')) (conversationId adapter) (js ''Halo'')), WsClose])"
      using post_api_ai_index_valid[OF assms(1) trim_Halo, of reply ?events] ch' r'(1) by simp
    moreover have "WsSend (Send (Mode (js ''chat'')) (conversationId adapter) (js ''Halo''))
          \<in> set (b' @ [WsConnect, WsSend SetOptions,
            WsSend (Send (Mode (js ''chat'')) (conversationId adapter) (js ''Halo'')), WsClose])"
      by simp
    moreover have "res_response r' = Some (js ''Hi there'')"
      using r'(4) by (simp only: trim_Hi_there)
    ultimately show "\<exists>r cid done.
               post_api_ai_index reply ?events body = (Some r, done) \<and>
               WsSend (Send (Mode (js ''chat'')) cid (js ''Halo'')) \<in> set done \<and>
               res_status r = 200 \<and> res_success r \<and>
               res_response r = Some (js ''Hi there'') \<and> res_citations r = Some []"
      using r'(2,3,5) by blast
  qed
  show ?thesis
    using fp part index by blast
qed

theorem halo_scenario_witness:
  "has_conversation (AxiosResponse (JObj [(js ''id'', JStr (js ''c1''))])) new_Copilot \<and>
   (\<exists>r copilot' done.
      post_api_ai (AxiosResponse (JObj [(js ''id'', JStr (js ''c1''))]))
        [OnOpen, OnMessage (appendText_frame (js ''Hi'')),
         OnMessage (appendText_frame (js '' there'')), OnMessage done_frame]
        [(js ''query'', JStr (js ''Halo''))] new_Copilot = (Some r, copilot', done) \<and>
      WsSend (Send (Mode (js ''chat'')) (conversationId copilot')
        (js ''Anda harus menjawab secara eksklusif dalam Bahasa Indonesia.\<newline>\<newline>---\<newline>\<newline>PERTANYAAN:\<newline>Halo''))
        \<in> set done \<and>
      res_status r = 200 \<and> res_success r \<and>
      res_response r = Some (js ''Hi there'') \<and> res_citations r = Some [])"
proof -
  have a: "map_of [(js ''query'', JStr (js ''Halo''))] (js ''query'') = Some (JStr (js ''Halo''))"
    by simp
  have b: "map_of [(js ''query'', JStr (js ''Halo''))] (js ''customModel'') = None"
    by simp
  have c: "map_of [(js ''query'', JStr (js ''Halo''))] (js ''language'') = None"
    by simp
  have d: "has_conversation (AxiosResponse (JObj [(js ''id'', JStr (js ''c1''))])) new_Copilot"
    by (simp add: has_conversation_def)
  show ?thesis
    using d halo_scenario[OF a b c d] by blast
qed

text \<open>
  C2 as stated fails on the handler of \<open>src/index.js\<close>, which has no prompt
  construction: the one message frame it sends carries \<open>Halo\<close> and nothing else.
\<close>

theorem halo_scenario_counterexample:
  "post_api_ai_index (AxiosResponse (JObj [(js ''id'', JStr (js ''c1''))]))
     [OnOpen, OnMessage (appendText_frame (js ''Hi'')),
      OnMessage (appendText_frame (js '' there'')), OnMessage done_frame]
     [(js ''query'', JStr (js ''Halo''))] =
   (respond (js ''Halo'') None None None (Resolved \<lparr>text = js ''Hi there'', citations = []\<rparr>),
    [HttpPost, WsConnect, WsSend SetOptions,
     WsSend (Send (Mode (js ''chat'')) (Some (JStr (js ''c1''))) (js ''Halo'')), WsClose]) \<and>
   js ''Halo'' \<noteq>
     js ''Anda harus menjawab secara eksklusif dalam Bahasa Indonesia.\<newline>\<newline>---\<newline>\<newline>PERTANYAAN:\<newline>Halo''"
proof -
  have a: "map_of [(js ''query'', JStr (js ''Halo''))] (js ''query'') = Some (JStr (js ''Halo''))"
    by simp
  have "chat (AxiosResponse (JObj [(js ''id'', JStr (js ''c1''))]))
     [OnOpen, OnMessage (appendText_frame (js ''Hi'')),
      OnMessage (appendText_frame (js '' there'')), OnMessage done_frame]
     (js ''Halo'') (js ''default'') new_Copilot =
     (Resolved \<lparr>text = js ''Hi there'', citations = []\<rparr>,
      \<lparr>conversationId = Some (JStr (js ''c1''))\<rparr>,
      [HttpPost, WsConnect, WsSend SetOptions,
       WsSend (Send (Mode (js ''chat'')) (Some (JStr (js ''c1''))) (js ''Halo'')), WsClose])"
    by (simp add: chat_def new_Copilot_def createConversation_def connect_def models_get_default
        Let_def scenario_await scenario_calls del: run_Cons run_Nil)
  then show ?thesis
    by (simp add: post_api_ai_index_valid[OF a trim_Halo])
qed


lemma error_message_cases:
  "(\<forall>m. field f (js ''message'') = Some (JStr m) \<and> m \<noteq> [] \<longrightarrow> error_message f = m) \<and>
   (\<not> truthy (field f (js ''message'')) \<longrightarrow>
      error_message f = js ''An unknown error occurred during the AI chat.'') \<and>
   (\<forall>v s. field f (js ''message'') = Some v \<and> truthy (Some v) \<and> to_string v = Some s \<longrightarrow>
      error_message f = s) \<and>
   (\<forall>v. field f (js ''message'') = Some v \<and> truthy (Some v) \<and> to_string v = None \<longrightarrow>
      error_message f = js ''Failed to process message from AI service.'')"
proof (intro conjI allI impI)
  fix m
  assume "field f (js ''message'') = Some (JStr m) \<and> m \<noteq> []"
  then show "error_message f = m" by (simp add: error_message_def)
next
  assume "\<not> truthy (field f (js ''message''))"
  then show "error_message f = js ''An unknown error occurred during the AI chat.''"
    by (cases "field f (js ''message'')") (simp_all add: error_message_def unknown_error_def)
next
  fix v s
  assume "field f (js ''message'') = Some v \<and> truthy (Some v) \<and> to_string v = Some s"
  then show "error_message f = s" by (simp add: error_message_def)
next
  fix v
  assume "field f (js ''message'') = Some v \<and> truthy (Some v) \<and> to_string v = None"
  then show "error_message f = js ''Failed to process message from AI service.''"
    by (simp add: error_message_def process_failed_def)
qed

text \<open>
  C5, as amended.  An \<open>error\<close> frame that arrives while the exchange is open ends it:
  \<open>chat\<close> rejects, and the handler answers with status 500 and the message of the rejection
  in the field \<open>message\<close>.  That message is the string the backend supplied when it is a
  non-empty string (any other truthy value is converted to a string), the fixed text of
  the \<open>error\<close> case when the frame has no message or a falsy one, and the fixed text of the
  \<open>catch\<close> when the message cannot be converted to a string.
\<close>

theorem error_frame_gives_500:
  assumes "\<forall>ev\<in>set pre. \<not> terminal ev" and "is_error f"
    and "has_conversation reply copilot"
    and "map_of body (js ''query'') = Some (JStr q)" and "trim q \<noteq> []"
    and "finalPrompt (map_of body (js ''customModel'')) (map_of body (js ''language'')) q = Inr prompt"
  shows "fst (chat reply (pre @ OnMessage f # post) prompt (js ''default'') copilot) =
           Rejected (error_message f) \<and>
         fst (post_api_ai reply (pre @ OnMessage f # post) body copilot) =
           Some (server_error (error_message f)) \<and>
         res_status (server_error (error_message f)) = 500 \<and>
         res_success (server_error (error_message f)) = False \<and>
         res_message (server_error (error_message f)) = Some (error_message f) \<and>
         (has_conversation reply new_Copilot \<longrightarrow>
            fst (post_api_ai_index reply (pre @ OnMessage f # post) body) =
              Some (server_error (error_message f))) \<and>
         (\<forall>m. field f (js ''message'') = Some (JStr m) \<and> m \<noteq> [] \<longrightarrow> error_message f = m) \<and>
         (\<not> truthy (field f (js ''message'')) \<longrightarrow>
            error_message f = js ''An unknown error occurred during the AI chat.'') \<and>
         (\<forall>v s. field f (js ''message'') = Some v \<and> truthy (Some v) \<and> to_string v = Some s \<longrightarrow>
            error_message f = s) \<and>
         (\<forall>v. field f (js ''message'') = Some v \<and> truthy (Some v) \<and> to_string v = None \<longrightarrow>
            error_message f = js ''Failed to process message from AI service.'')"
proof -
  have m: "models_get (js ''default'') \<noteq> Missing" by (simp add: models_get_default)
  have ch: "\<And>this msg. has_conversation reply this \<Longrightarrow>
              fst (chat reply (pre @ OnMessage f # post) msg (js ''default'') this) =
                Rejected (error_message f)"
    using chat_error_frame[OF _ m assms(1,2)] by blast
  have 1: "fst (chat reply (pre @ OnMessage f # post) prompt (js ''default'') copilot) =
           Rejected (error_message f)"
    using ch[OF assms(3)] .
  have 2: "fst (post_api_ai reply (pre @ OnMessage f # post) body copilot) =
           Some (server_error (error_message f))"
    by (simp add: post_api_ai_outcome[OF assms(4,5,6)] 1 respond_Rejected)
  have 3: "has_conversation reply new_Copilot \<longrightarrow>
            fst (post_api_ai_index reply (pre @ OnMessage f # post) body) =
              Some (server_error (error_message f))"
    by (simp add: post_api_ai_index_outcome[OF assms(4,5)] ch respond_Rejected)
  show ?thesis
    using 1 2 3 server_error_fields[of "error_message f"] error_message_cases[of f] by blast
qed

theorem error_frame_gives_500_witness:
  "fst (post_api_ai (AxiosResponse (JObj [(js ''id'', JStr (js ''c1''))]))
      ([OnOpen, OnMessage (appendText_frame (js ''Hi''))] @
        OnMessage (error_frame (js ''Rate limit exceeded'')) # [])
      [(js ''query'', JStr (js ''Halo''))] new_Copilot) =
     Some (server_error (js ''Rate limit exceeded'')) \<and>
   res_status (server_error (js ''Rate limit exceeded'')) = 500 \<and>
   res_message (server_error (js ''Rate limit exceeded'')) = Some (js ''Rate limit exceeded'')"
proof -
  let ?body = "[(js ''query'', JStr (js ''Halo''))]"
  have a: "\<forall>ev\<in>set [OnOpen, OnMessage (appendText_frame (js ''Hi''))]. \<not> terminal ev"
    by (simp add: scenario_frames)
  have b: "is_error (error_frame (js ''Rate limit exceeded''))"
    by (simp add: frame_defs error_frame_def)
  have d: "has_conversation (AxiosResponse (JObj [(js ''id'', JStr (js ''c1''))])) new_Copilot"
    by (rule has_conversation_new)
  have e: "map_of ?body (js ''query'') = Some (JStr (js ''Halo''))"
    by simp
  have f: "finalPrompt (map_of ?body (js ''customModel'')) (map_of ?body (js ''language'')) (js ''Halo'') =
     Inr (js ''Anda harus menjawab secara eksklusif dalam Bahasa Indonesia.\<newline>\<newline>---\<newline>\<newline>PERTANYAAN:\<newline>Halo'')"
    using finalPrompt_Halo by simp
  have g: "error_message (error_frame (js ''Rate limit exceeded'')) = js ''Rate limit exceeded''"
    by (simp add: error_message_def field_def error_frame_def)
  note r = error_frame_gives_500[OF a b d e trim_Halo f, of "[]", unfolded g]
  show ?thesis
    using r by blast
qed

text \<open>
  C5 as stated fails on an \<open>error\<close> frame whose message is an object with an own property
  \<open>toString\<close>: \<open>new Error\<close> throws inside the \<open>try\<close>, and the 500 answer carries the text
  of the \<open>catch\<close>, which is neither the message of the backend nor the fixed text of the
  \<open>error\<close> case.
\<close>

theorem error_frame_counterexample:
  "fst (post_api_ai (AxiosResponse (JObj [(js ''id'', JStr (js ''c1''))]))
      [OnOpen,
       OnMessage (Json (JObj [(js ''event'', JStr (js ''error'')),
                              (js ''message'', JObj [(js ''toString'', JNum (js ''1''))])]))]
      [(js ''query'', JStr (js ''Halo''))] new_Copilot) =
     Some (server_error (js ''Failed to process message from AI service.'')) \<and>
   js ''Failed to process message from AI service.'' \<noteq>
     js ''An unknown error occurred during the AI chat.''"
proof -
  let ?body = "[(js ''query'', JStr (js ''Halo''))]"
  let ?f = "Json (JObj [(js ''event'', JStr (js ''error'')),
                        (js ''message'', JObj [(js ''toString'', JNum (js ''1''))])])"
  have q: "map_of ?body (js ''query'') = Some (JStr (js ''Halo''))" by simp
  have fp: "finalPrompt (map_of ?body (js ''customModel'')) (map_of ?body (js ''language'')) (js ''Halo'') =
     Inr (js ''Anda harus menjawab secara eksklusif dalam Bahasa Indonesia.\<newline>\<newline>---\<newline>\<newline>PERTANYAAN:\<newline>Halo'')"
    using finalPrompt_Halo by simp
  have m: "models_get (js ''default'') \<noteq> Missing" by (simp add: models_get_default)
  have p: "\<forall>ev\<in>set [OnOpen]. \<not> terminal ev" by simp
  have e: "is_error ?f" by (simp add: frame_defs)
  have g: "error_message ?f = js ''Failed to process message from AI service.''"
    by (simp add: error_message_def field_def process_failed_def)
  have "\<And>msg. fst (chat (AxiosResponse (JObj [(js ''id'', JStr (js ''c1''))]))
          [OnOpen, OnMessage ?f] msg (js ''default'') new_Copilot) =
        Rejected (js ''Failed to process message from AI service.'')"
    using chat_error_frame[OF has_conversation_new m p e, where post = "[]"] by (simp add: g)
  then show ?thesis
    by (simp add: post_api_ai_outcome[OF q trim_Halo fp] respond_Rejected)
qed


end
